theory Spec2Isabelle
  imports Main "HOL-Library.Word"
begin

unbundle bit_operations_syntax

section \<open>The PCI function of the transport shim (pci.c)\<close>

subsection \<open>Constants of the header\<close>

text \<open>
  Modelled from the spec: the constants that pci.c takes from pci.h, a header that is not
  among the source files. The spec fixes the size of the configuration space (256 bytes,
  with a header of 64 bytes), the six BARs at 0x10..0x27 and the register offsets
  (``offsets follow PCI conventions''); the command bits, the BAR type bit, the two
  address masks and the all-ones value of an unmapped BAR are the values of the PCI
  convention.
\<close>

definition PCI_CONFIG_SIZE :: nat where "PCI_CONFIG_SIZE = 256"
definition PCI_CONFIG_HEADER_SIZE :: nat where "PCI_CONFIG_HEADER_SIZE = 64"
definition PCI_NUM_BAR :: nat where "PCI_NUM_BAR = 6"

definition PCI_VENDOR_ID :: nat where "PCI_VENDOR_ID = 0x00"
definition PCI_DEVICE_ID :: nat where "PCI_DEVICE_ID = 0x02"
definition PCI_COMMAND :: nat where "PCI_COMMAND = 0x04"
definition PCI_REVISION_ID :: nat where "PCI_REVISION_ID = 0x08"
definition PCI_CLASS_PROG :: nat where "PCI_CLASS_PROG = 0x09"
definition PCI_CLASS_DEVICE :: nat where "PCI_CLASS_DEVICE = 0x0a"
definition PCI_CACHE_LINE_SIZE :: nat where "PCI_CACHE_LINE_SIZE = 0x0c"
definition PCI_HEADER_TYPE :: nat where "PCI_HEADER_TYPE = 0x0e"
definition PCI_BASE_ADDRESS_0 :: nat where "PCI_BASE_ADDRESS_0 = 0x10"
definition PCI_SUBSYSTEM_VENDOR_ID :: nat where "PCI_SUBSYSTEM_VENDOR_ID = 0x2c"
definition PCI_SUBSYSTEM_ID :: nat where "PCI_SUBSYSTEM_ID = 0x2e"
definition PCI_INTERRUPT_LINE :: nat where "PCI_INTERRUPT_LINE = 0x3c"
definition PCI_INTERRUPT_PIN :: nat where "PCI_INTERRUPT_PIN = 0x3d"

definition PCI_COMMAND_IO :: "16 word" where "PCI_COMMAND_IO = 0x1"
definition PCI_COMMAND_MEMORY :: "16 word" where "PCI_COMMAND_MEMORY = 0x2"
definition PCI_COMMAND_MASTER :: "16 word" where "PCI_COMMAND_MASTER = 0x4"
definition PCI_COMMAND_INTX_DISABLE :: "16 word" where "PCI_COMMAND_INTX_DISABLE = 0x400"

definition PCI_BASE_ADDRESS_SPACE_IO :: "8 word" where "PCI_BASE_ADDRESS_SPACE_IO = 0x01"
definition PCI_BASE_ADDRESS_MEM_MASK :: "32 word" where "PCI_BASE_ADDRESS_MEM_MASK = NOT 0x0f"
definition PCI_BASE_ADDRESS_IO_MASK :: "32 word" where "PCI_BASE_ADDRESS_IO_MASK = NOT 0x03"
definition PCI_BAR_UNMAPPED :: "32 word" where "PCI_BAR_UNMAPPED = NOT 0"

subsection \<open>The device state\<close>

text \<open>
  A BAR's handler table (\<open>bar_ops_t\<close>): eight function pointers, each of which may be
  NULL, so each is an option. A handler receives the BAR's private pointer; the model
  threads the private state \<open>'p\<close> through every call, so a handler may change it and a
  read may depend on the calls before it. (\<open>map\<close> and \<open>unmap\<close> carry the suffix
  \<open>_op\<close>, the name \<open>map\<close> being taken.)
\<close>

record 'p bar_ops =
  map_op :: "('p \<Rightarrow> 64 word \<Rightarrow> 'p) option"
  unmap_op :: "('p \<Rightarrow> 'p) option"
  readb :: "('p \<Rightarrow> 64 word \<Rightarrow> 8 word \<times> 'p) option"
  readw :: "('p \<Rightarrow> 64 word \<Rightarrow> 16 word \<times> 'p) option"
  readl :: "('p \<Rightarrow> 64 word \<Rightarrow> 32 word \<times> 'p) option"
  writeb :: "('p \<Rightarrow> 64 word \<Rightarrow> 8 word \<Rightarrow> 'p) option"
  writew :: "('p \<Rightarrow> 64 word \<Rightarrow> 16 word \<Rightarrow> 'p) option"
  writel :: "('p \<Rightarrow> 64 word \<Rightarrow> 32 word \<Rightarrow> 'p) option"

text \<open>
  \<open>struct pci_bar\<close>. The field \<open>size\<close> is \<open>size_bar\<close> here. \<open>is_mmio\<close> and \<open>enable\<close> are
  C ints that only ever hold 0 or 1.
\<close>

record 'p pci_bar =
  ops :: "'p bar_ops"
  is_mmio :: bool
  enable :: bool
  addr :: "32 word"
  size_bar :: "32 word"
  priv :: 'p

text \<open>
  The calls into the hypervisor library. Their results are thrown away by pci.c (but for
  the registration of the device), so a call is an entry of a trace.
\<close>

datatype xc_call =
  Map_pcidev "32 word" "32 word" "32 word"
  | Unmap_pcidev "8 word" "8 word" "8 word"
  | Map_io_range bool "64 word" "64 word"
  | Unmap_io_range bool "64 word" "64 word"

text \<open>
  \<open>struct pci\<close>, the one file-scope object \<open>pci\<close>. The field \<open>mask\<close> is \<open>mask_cfg\<close>
  here. The hypervisor handle (\<open>xch\<close>, \<open>domid\<close>, \<open>ioservid\<close>) only parameterises the
  hypervisor calls; its place is taken by the trace \<open>xc\<close> of the calls made so far.
  \<open>irq_pin\<close> and \<open>irq_state\<close> are never used by pci.c and are left out.
\<close>

record 'p pci =
  bdf :: "16 word"
  config :: "8 word list"
  mask_cfg :: "8 word list"
  bar :: "'p pci_bar list"
  xc :: "xc_call list"

subsection \<open>memcpy of integers into the byte arrays\<close>

text \<open>
  pci.c copies 16- and 32-bit integers to and from \<open>config\<close> and \<open>mask\<close> with memcpy; the
  host is little-endian, so the low byte goes first.
\<close>

definition store_le16 :: "8 word list \<Rightarrow> nat \<Rightarrow> 16 word \<Rightarrow> 8 word list" where
  "store_le16 xs off v = xs[off := ucast v, off + 1 := ucast (drop_bit 8 v)]"

definition store_le32 :: "8 word list \<Rightarrow> nat \<Rightarrow> 32 word \<Rightarrow> 8 word list" where
  "store_le32 xs off v =
     xs[off := ucast v, off + 1 := ucast (drop_bit 8 v),
        off + 2 := ucast (drop_bit 16 v), off + 3 := ucast (drop_bit 24 v)]"

definition load_le16 :: "8 word list \<Rightarrow> nat \<Rightarrow> 16 word" where
  "load_le16 xs off = ucast (xs ! off) OR push_bit 8 (ucast (xs ! (off + 1)))"

definition load_le32 :: "8 word list \<Rightarrow> nat \<Rightarrow> 32 word" where
  "load_le32 xs off =
     ucast (xs ! off) OR push_bit 8 (ucast (xs ! (off + 1)))
       OR push_bit 16 (ucast (xs ! (off + 2))) OR push_bit 24 (ucast (xs ! (off + 3)))"

subsection \<open>Shifts of 32-bit values\<close>

text \<open>
  \<open>x << n\<close> and \<open>x >> n\<close> on an \<open>uint32_t\<close>, where the count is not a constant. For a
  count below 32 this is the shift of the word. C gives no meaning to a count of 32 or
  more, and pci.c does not keep its counts below 32: the loops of \<open>pci_config_read\<close>
  and \<open>pci_config_write\<close> shift by \<open>i * 8\<close> for every \<open>i\<close> below the size of the access,
  and \<open>pci_bar_register\<close> shifts by the order it is given. The shift instructions of the
  processors that the shim is built for (x86-64, AArch64) take the count of a 32-bit shift
  modulo 32, and so do \<open>shl32\<close> and \<open>shr32\<close>: a write of eight bytes writes the four
  bytes of the value twice. The properties below that speak of a value that was shifted
  are stated for counts below 32 only.
\<close>

definition shl32 :: "32 word \<Rightarrow> nat \<Rightarrow> 32 word" where
  "shl32 x n = push_bit (n mod 32) x"

definition shr32 :: "32 word \<Rightarrow> nat \<Rightarrow> 32 word" where
  "shr32 x n = drop_bit (n mod 32) x"

subsection \<open>Registration\<close>

text \<open>
  Modelled from the spec: \<open>pci_info_t\<close> is declared in pci.h. The identifiers and the
  command word are the 16-bit registers of the PCI convention, the other registers are
  bytes (\<open>class\<close>, \<open>subclass\<close> and \<open>function\<close> are \<open>class_code\<close>,
  \<open>subclass_code\<close> and \<open>function_nr\<close> here); bus, device and function are wide enough for the range check of
  \<open>pci_device_register\<close> to mean something.
\<close>

record pci_info =
  bus :: "32 word"
  device :: "32 word"
  function_nr :: "32 word"
  vendor_id :: "16 word"
  device_id :: "16 word"
  subvendor_id :: "16 word"
  subdevice_id :: "16 word"
  revision :: "8 word"
  class_code :: "8 word"
  subclass_code :: "8 word"
  prog_if :: "8 word"
  header_type :: "8 word"
  command :: "16 word"
  interrupt_pin :: "8 word"

text \<open>The object \<open>pci\<close> before any call: a file-scope object starts zeroed.\<close>

definition null_ops :: "'p bar_ops" where
  "null_ops = \<lparr>map_op = None, unmap_op = None, readb = None, readw = None, readl = None,
     writeb = None, writew = None, writel = None\<rparr>"

definition null_bar :: "'p \<Rightarrow> 'p pci_bar" where
  "null_bar p = \<lparr>ops = null_ops, is_mmio = False, enable = False, addr = 0, size_bar = 0,
     priv = p\<rparr>"

definition pci_zero :: "'p \<Rightarrow> 'p pci" where
  "pci_zero p = \<lparr>bdf = 0, config = replicate PCI_CONFIG_SIZE 0,
     mask_cfg = replicate PCI_CONFIG_SIZE 0, bar = replicate PCI_NUM_BAR (null_bar p), xc = []\<rparr>"

text \<open>memset of \<open>n\<close> bytes from offset \<open>off\<close>.\<close>

definition memset :: "8 word list \<Rightarrow> nat \<Rightarrow> 8 word \<Rightarrow> nat \<Rightarrow> 8 word list" where
  "memset xs off v n = take off xs @ replicate n v @ drop (off + n) xs"

text \<open>
  \<open>pci_device_register\<close>. \<open>rc\<close> is what the hypervisor answers to the registration of the
  device. The result is the return value (0 or -1) and the state: the function has
  written the hypervisor handle before the range check, and the whole configuration before
  it asks the hypervisor.
\<close>

definition pci_device_register :: "'p pci \<Rightarrow> pci_info \<Rightarrow> int \<Rightarrow> int \<times> 'p pci" where
  "pci_device_register s info rc =
     (if bus info AND NOT 0xff \<noteq> 0 \<or> device info AND NOT 0x1f \<noteq> 0
         \<or> function_nr info AND NOT 0x07 \<noteq> 0
      then (-1, s)
      else
        let c0 = store_le16 (config s) PCI_VENDOR_ID (vendor_id info);
            c1 = store_le16 c0 PCI_DEVICE_ID (device_id info);
            c2 = c1[PCI_REVISION_ID := revision info];
            c3 = c2[PCI_CLASS_PROG := prog_if info];
            c4 = c3[PCI_CLASS_DEVICE + 1 := class_code info];
            c5 = c4[PCI_CLASS_DEVICE := subclass_code info];
            c6 = c5[PCI_HEADER_TYPE := header_type info];
            c7 = store_le16 c6 PCI_SUBSYSTEM_VENDOR_ID (subvendor_id info);
            c8 = store_le16 c7 PCI_SUBSYSTEM_ID (subdevice_id info);
            c9 = store_le16 c8 PCI_COMMAND (command info);
            c10 = c9[PCI_INTERRUPT_PIN := interrupt_pin info];
            m0 = (mask_cfg s)[PCI_CACHE_LINE_SIZE := 0xff];
            m1 = m0[PCI_INTERRUPT_LINE := 0xff];
            val = PCI_COMMAND_IO OR PCI_COMMAND_MEMORY OR PCI_COMMAND_MASTER
                    OR PCI_COMMAND_INTX_DISABLE;
            m2 = store_le16 m1 PCI_COMMAND val;
            m3 = memset m2 PCI_CONFIG_HEADER_SIZE 0xff (PCI_CONFIG_SIZE - PCI_CONFIG_HEADER_SIZE);
            s' = s\<lparr>bdf := ucast (push_bit 8 (bus info) OR push_bit 3 (device info)
                               OR function_nr info),
                   config := c10, mask_cfg := m3,
                   xc := xc s @ [Map_pcidev (bus info) (device info) (function_nr info)]\<rparr>
        in (if rc < 0 then -1 else 0, s'))"

text \<open>
  \<open>pci_bar_register\<close>. The size of the BAR is \<open>1u << order\<close>, a shift that has a
  meaning in C for an order below 32 only and that the function does not guard; the
  handler table \<open>ops\<close> is \<open>None\<close> for a NULL pointer.
\<close>

definition pci_bar_register ::
  "'p pci \<Rightarrow> nat \<Rightarrow> 8 word \<Rightarrow> nat \<Rightarrow> 'p bar_ops option \<Rightarrow> 'p \<Rightarrow> int \<times> 'p pci" where
  "pci_bar_register s index type order ops_ptr pr =
     (if index \<ge> PCI_NUM_BAR then (-1, s)
      else if enable (bar s ! index) then (-1, s)
      else case ops_ptr of
        None \<Rightarrow> (-1, s)
      | Some o_tab \<Rightarrow>
          if readb o_tab = None \<or> writeb o_tab = None then (-1, s)
          else
            let sz = shl32 1 order;
                b = (bar s ! index)\<lparr>ops := o_tab,
                      is_mmio := (type AND PCI_BASE_ADDRESS_SPACE_IO = 0),
                      size_bar := sz, enable := True, addr := PCI_BAR_UNMAPPED, priv := pr\<rparr>
            in (0, s\<lparr>config := store_le32 (config s) (PCI_BASE_ADDRESS_0 + index * 4) (ucast type),
                      mask_cfg := store_le32 (mask_cfg s) (PCI_BASE_ADDRESS_0 + index * 4)
                                    (NOT (sz - 1)),
                      bar := (bar s)[index := b]\<rparr>))"

text \<open>
  \<open>pci_device_deregister\<close> and \<open>pci_bar_deregister\<close> only tell the hypervisor; the
  latter does nothing for a BAR that is not mapped.
\<close>

definition pci_device_deregister :: "'p pci \<Rightarrow> 'p pci" where
  "pci_device_deregister s =
     (let b = (ucast (drop_bit 8 (bdf s) AND 0xff) :: 8 word);
          d = (ucast (drop_bit 3 (bdf s) AND 0x1f) :: 8 word);
          f = (ucast (bdf s AND 0x07) :: 8 word)
      in s\<lparr>xc := xc s @ [Unmap_pcidev b d f]\<rparr>)"

definition pci_bar_deregister :: "nat \<Rightarrow> 'p pci \<Rightarrow> 'p pci" where
  "pci_bar_deregister index s =
     (let b = bar s ! index
      in if addr b = PCI_BAR_UNMAPPED then s
         else s\<lparr>xc := xc s @ [Unmap_io_range (is_mmio b) (ucast (addr b))
                                (ucast (addr b + size_bar b - 1))]\<rparr>)"

subsection \<open>Finding the BAR of an access\<close>

text \<open>
  \<open>pci_bar_get\<close> walks the six BARs and returns the first enabled one of the right kind
  whose window holds the address; the model returns its index. The end of the window,
  \<open>bar->addr + bar->size\<close>, is a sum of two 32-bit values and wraps as such.
\<close>

fun bar_scan :: "'p pci_bar list \<Rightarrow> nat \<Rightarrow> bool \<Rightarrow> 64 word \<Rightarrow> nat option" where
  "bar_scan [] i m a = None"
| "bar_scan (b # bs) i m a =
     (if \<not> enable b \<or> is_mmio b \<noteq> m then bar_scan bs (Suc i) m a
      else if ucast (addr b) \<le> a \<and> a < ucast (addr b + size_bar b) then Some i
      else bar_scan bs (Suc i) m a)"

definition pci_bar_get :: "'p pci \<Rightarrow> bool \<Rightarrow> 64 word \<Rightarrow> nat option" where
  "pci_bar_get s m a = bar_scan (take PCI_NUM_BAR (bar s)) 0 m a"

subsection \<open>Reads and writes of a BAR\<close>

text \<open>
  The macro \<open>PCI_BAR_READ\<close>: \<open>_count\<close> calls of the handler \<open>_fn\<close> of width \<open>_size\<close>, at
  rising addresses, each result shifted into place and or-ed into \<open>_val\<close>. The loop of
  the macro is the recursion on the calls still to make; \<open>sh\<close> is \<open>_shift\<close>. The macro
  sets \<open>_val\<close> to 0 first. (The handler's result is promoted to int before the shift; the
  bits that reach the 32-bit \<open>_val\<close> are those of the shifted unsigned value.)
\<close>

fun bar_read_loop ::
  "('p \<Rightarrow> 64 word \<Rightarrow> ('w::len) word \<times> 'p) \<Rightarrow> nat \<Rightarrow> nat \<Rightarrow> 'p \<Rightarrow> 64 word \<Rightarrow> nat \<Rightarrow> 32 word
     \<Rightarrow> 32 word \<times> 'p" where
  "bar_read_loop fn sz 0 p a sh v = (v, p)"
| "bar_read_loop fn sz (Suc n) p a sh v =
     (case fn p a of (r, p') \<Rightarrow>
        bar_read_loop fn sz n p' (a + of_nat sz) (sh + 8 * sz) (v OR push_bit sh (ucast r)))"

definition PCI_BAR_READ ::
  "('p \<Rightarrow> 64 word \<Rightarrow> ('w::len) word \<times> 'p) \<Rightarrow> 'p \<Rightarrow> 64 word \<Rightarrow> nat \<Rightarrow> nat \<Rightarrow> 32 word \<times> 'p" where
  "PCI_BAR_READ fn p a sz count = bar_read_loop fn sz count p a 0 0"

text \<open>
  The switch of \<open>pci_bar_read\<close> on the size of the access, for a handler table, the
  private state and the address relative to the BAR. \<open>None\<close> is the failed assertion of
  the default case, or the call of a handler that is NULL.
\<close>

definition bar_read_switch ::
  "'p bar_ops \<Rightarrow> 'p \<Rightarrow> 64 word \<Rightarrow> 64 word \<Rightarrow> (32 word \<times> 'p) option" where
  "bar_read_switch o_tab p a sz =
     (if sz = 1 then
        (case readb o_tab of None \<Rightarrow> None
         | Some rb \<Rightarrow> (case rb p a of (r, p') \<Rightarrow> Some (ucast r, p')))
      else if sz = 2 then
        (case readw o_tab of
           None \<Rightarrow> (case readb o_tab of None \<Rightarrow> None
                    | Some rb \<Rightarrow> Some (PCI_BAR_READ rb p a 1 2))
         | Some rw \<Rightarrow> (case rw p a of (r, p') \<Rightarrow> Some (ucast r, p')))
      else if sz = 4 then
        (case readl o_tab of
           None \<Rightarrow>
             (case readw o_tab of
                None \<Rightarrow> (case readb o_tab of None \<Rightarrow> None
                         | Some rb \<Rightarrow> Some (PCI_BAR_READ rb p a 1 4))
              | Some rw \<Rightarrow> Some (PCI_BAR_READ rw p a 2 2))
         | Some rl \<Rightarrow> (case rl p a of (r, p') \<Rightarrow> Some (r, p')))
      else None)"

text \<open>
  \<open>pci_bar_read\<close>: the value read and the state after it. \<open>None\<close> is the failed assertion
  that a BAR holds the address (or one of \<open>bar_read_switch\<close>).
\<close>

definition pci_bar_read :: "'p pci \<Rightarrow> bool \<Rightarrow> 64 word \<Rightarrow> 64 word \<Rightarrow> (32 word \<times> 'p pci) option" where
  "pci_bar_read s m a sz =
     (case pci_bar_get s m a of
        None \<Rightarrow> None
      | Some i \<Rightarrow>
          let b = bar s ! i in
          (case bar_read_switch (ops b) (priv b) (a - ucast (addr b)) sz of
             None \<Rightarrow> None
           | Some (v, p') \<Rightarrow> Some (v, s\<lparr>bar := (bar s)[i := b\<lparr>priv := p'\<rparr>]\<rparr>)))"

text \<open>
  The macro \<open>PCI_BAR_WRITE\<close>: \<open>_count\<close> calls of the handler \<open>_fn\<close> of width \<open>_size\<close>, at
  rising addresses, each with \<open>_val\<close> shifted right by \<open>_shift\<close> (and cut to the width of
  the handler's parameter). As in the source, the macro sets \<open>_val\<close> to 0 before the loop.
\<close>

fun bar_write_loop ::
  "('p \<Rightarrow> 64 word \<Rightarrow> ('w::len) word \<Rightarrow> 'p) \<Rightarrow> nat \<Rightarrow> nat \<Rightarrow> 'p \<Rightarrow> 64 word \<Rightarrow> nat \<Rightarrow> 32 word \<Rightarrow> 'p" where
  "bar_write_loop fn sz 0 p a sh v = p"
| "bar_write_loop fn sz (Suc n) p a sh v =
     bar_write_loop fn sz n (fn p a (ucast (drop_bit sh v))) (a + of_nat sz) (sh + 8 * sz) v"

definition PCI_BAR_WRITE ::
  "('p \<Rightarrow> 64 word \<Rightarrow> ('w::len) word \<Rightarrow> 'p) \<Rightarrow> 'p \<Rightarrow> 64 word \<Rightarrow> nat \<Rightarrow> nat \<Rightarrow> 32 word \<Rightarrow> 'p" where
  "PCI_BAR_WRITE fn p a sz count v = (let v0 = 0 in bar_write_loop fn sz count p a 0 v0)"

definition bar_write_switch ::
  "'p bar_ops \<Rightarrow> 'p \<Rightarrow> 64 word \<Rightarrow> 64 word \<Rightarrow> 32 word \<Rightarrow> 'p option" where
  "bar_write_switch o_tab p a sz v =
     (if sz = 1 then
        (case writeb o_tab of None \<Rightarrow> None | Some wb \<Rightarrow> Some (wb p a (ucast v)))
      else if sz = 2 then
        (case writew o_tab of
           None \<Rightarrow> (case writeb o_tab of None \<Rightarrow> None
                    | Some wb \<Rightarrow> Some (PCI_BAR_WRITE wb p a 1 2 v))
         | Some ww \<Rightarrow> Some (ww p a (ucast v)))
      else if sz = 4 then
        (case writel o_tab of
           None \<Rightarrow>
             (case writew o_tab of
                None \<Rightarrow> (case writeb o_tab of None \<Rightarrow> None
                         | Some wb \<Rightarrow> Some (PCI_BAR_WRITE wb p a 1 4 v))
              | Some ww \<Rightarrow> Some (PCI_BAR_WRITE ww p a 2 2 v))
         | Some wl \<Rightarrow> Some (wl p a v))
      else None)"

definition pci_bar_write :: "'p pci \<Rightarrow> bool \<Rightarrow> 64 word \<Rightarrow> 64 word \<Rightarrow> 32 word \<Rightarrow> 'p pci option" where
  "pci_bar_write s m a sz v =
     (case pci_bar_get s m a of
        None \<Rightarrow> None
      | Some i \<Rightarrow>
          let b = bar s ! i in
          (case bar_write_switch (ops b) (priv b) (a - ucast (addr b)) sz v of
             None \<Rightarrow> None
           | Some p' \<Rightarrow> Some (s\<lparr>bar := (bar s)[i := b\<lparr>priv := p'\<rparr>]\<rparr>)))"

subsection \<open>Mapping the BARs after a change of the configuration\<close>

text \<open>
  \<open>pci_map_bar\<close> tells the handler (when it has a \<open>map\<close>) and then the hypervisor;
  \<open>pci_unmap_bar\<close> tells the hypervisor and then the handler. The end of the range,
  \<open>bar->addr + bar->size - 1\<close>, is computed in 32 bits.
\<close>

definition pci_map_bar :: "nat \<Rightarrow> 'p pci \<Rightarrow> 'p pci" where
  "pci_map_bar index s =
     (let b = bar s ! index;
          p' = (case map_op (ops b) of None \<Rightarrow> priv b | Some f \<Rightarrow> f (priv b) (ucast (addr b)))
      in s\<lparr>bar := (bar s)[index := b\<lparr>priv := p'\<rparr>],
           xc := xc s @ [Map_io_range (is_mmio b) (ucast (addr b))
                           (ucast (addr b + size_bar b - 1))]\<rparr>)"

definition pci_unmap_bar :: "nat \<Rightarrow> 'p pci \<Rightarrow> 'p pci" where
  "pci_unmap_bar index s =
     (let b = bar s ! index;
          p' = (case unmap_op (ops b) of None \<Rightarrow> priv b | Some f \<Rightarrow> f (priv b))
      in s\<lparr>bar := (bar s)[index := b\<lparr>priv := p'\<rparr>],
           xc := xc s @ [Unmap_io_range (is_mmio b) (ucast (addr b))
                           (ucast (addr b + size_bar b - 1))]\<rparr>)"

text \<open>
  The address that \<open>pci_update_bar\<close> computes for BAR \<open>index\<close> from the configuration
  space: the BAR register without its type bits, replaced by \<open>PCI_BAR_UNMAPPED\<close> when the
  command register does not enable the BAR's kind of space, or when the address is 0 or
  the mask of the BAR's size (what the register reads after the guest has written all
  ones to probe the size).
\<close>

definition bar_target :: "8 word list \<Rightarrow> nat \<Rightarrow> 'p pci_bar \<Rightarrow> 32 word" where
  "bar_target cfg index b =
     (let msk = NOT (size_bar b - 1);
          a0 = load_le32 cfg (PCI_BASE_ADDRESS_0 + index * 4);
          cmd = load_le16 cfg PCI_COMMAND;
          a1 = (if is_mmio b then a0 AND PCI_BASE_ADDRESS_MEM_MASK
                else a0 AND PCI_BASE_ADDRESS_IO_MASK);
          a2 = (if (cmd AND PCI_COMMAND_IO = 0 \<and> \<not> is_mmio b)
                   \<or> (cmd AND PCI_COMMAND_MEMORY = 0 \<and> is_mmio b)
                then PCI_BAR_UNMAPPED else a1)
      in if a2 = 0 \<or> a2 = msk then PCI_BAR_UNMAPPED else a2)"

definition set_bar_addr :: "nat \<Rightarrow> 32 word \<Rightarrow> 'p pci \<Rightarrow> 'p pci" where
  "set_bar_addr index a s = s\<lparr>bar := (bar s)[index := (bar s ! index)\<lparr>addr := a\<rparr>]\<rparr>"

definition pci_update_bar :: "nat \<Rightarrow> 'p pci \<Rightarrow> 'p pci" where
  "pci_update_bar index s =
     (let b = bar s ! index;
          a = bar_target (config s) index b
      in if \<not> enable b then s
         else if addr b = a then s
         else
           let s1 = (if addr b \<noteq> PCI_BAR_UNMAPPED
                     then set_bar_addr index PCI_BAR_UNMAPPED (pci_unmap_bar index s) else s);
               s2 = (if a \<noteq> PCI_BAR_UNMAPPED
                     then pci_map_bar index (set_bar_addr index a s1) else s1)
           in s2)"

definition pci_update_config :: "'p pci \<Rightarrow> 'p pci" where
  "pci_update_config s = fold pci_update_bar [0..<PCI_NUM_BAR] s"

subsection \<open>Reads and writes of the configuration space\<close>

text \<open>
  Round \<open>i\<close> of the loop of \<open>pci_config_read\<close>. \<open>addr + i\<close> is a 64-bit sum. The loop
  does not stop at four bytes: from \<open>i = 4\<close> on the count \<open>i * 8\<close> is 32 or more.
\<close>

definition config_read_step :: "8 word list \<Rightarrow> 64 word \<Rightarrow> nat \<Rightarrow> 32 word \<Rightarrow> 32 word" where
  "config_read_step cfg a i v =
     (if unat (a + of_nat i) < PCI_CONFIG_SIZE
      then v OR shl32 (ucast (cfg ! unat (a + of_nat i))) (i * 8)
      else v OR shl32 0xff (i + 8))"

definition pci_config_read :: "'p pci \<Rightarrow> 64 word \<Rightarrow> 64 word \<Rightarrow> 32 word" where
  "pci_config_read s a sz =
     (let sbdf = (ucast (drop_bit 32 a) :: 32 word) in
      if sbdf \<noteq> ucast (bdf s) then NOT 0
      else fold (config_read_step (config s) (a AND 0xff)) [0..<unat sz] 0)"

text \<open>
  Round \<open>i\<close> of the loop of \<open>pci_config_write\<close>: the bits of the byte that the mask
  clears are kept, the others are taken from \<open>(uint8_t)(val >> (i * 8))\<close>, which is byte
  \<open>i\<close> of the value for \<open>i\<close> below 4. The loop does not stop at four bytes either.
\<close>

definition config_write_step ::
  "8 word list \<Rightarrow> 64 word \<Rightarrow> 32 word \<Rightarrow> nat \<Rightarrow> 8 word list \<Rightarrow> 8 word list" where
  "config_write_step msk a v i cfg =
     (let k = unat (a + of_nat i) in
      if k < PCI_CONFIG_SIZE
      then cfg[k := (cfg ! k AND NOT (msk ! k)) OR (ucast (shr32 v (i * 8)) AND msk ! k)]
      else cfg)"

definition pci_config_write :: "'p pci \<Rightarrow> 64 word \<Rightarrow> 64 word \<Rightarrow> 32 word \<Rightarrow> 'p pci" where
  "pci_config_write s a sz v =
     (let sbdf = (ucast (ucast (drop_bit 32 a) :: 16 word) :: 32 word) in
      if sbdf \<noteq> ucast (bdf s) then s
      else
        let a1 = (a AND 0xff) + drop_bit 16 sz;
            sz1 = sz AND 0xffff;
            cfg = fold (config_write_step (mask_cfg s) a1 v) [0..<unat sz1] (config s)
        in pci_update_config (s\<lparr>config := cfg\<rparr>))"

text \<open>
  \<open>pci_config_resume\<close> copies \<open>PCI_CONFIG_SIZE\<close> bytes from \<open>data\<close>, which the caller
  must have, over the configuration space.
\<close>

definition pci_config_resume :: "'p pci \<Rightarrow> 8 word list \<Rightarrow> 'p pci" where
  "pci_config_resume s data =
     pci_update_config
       (s\<lparr>config := take PCI_CONFIG_SIZE data @ drop PCI_CONFIG_SIZE (config s)\<rparr>)"

subsection \<open>The claims' own words, to compare the code with\<close>

text \<open>
  For the decomposition of a wide BAR access, following the spec's words: the narrow
  calls are made at the relative offsets \<open>addr + i * width\<close>, in rising order;
  \<open>narrow_reads\<close> collects what the handler returns there (and the private state after
  the last call), \<open>le_compose\<close> puts result \<open>i\<close> at bit \<open>8 * width * i\<close>, and
  \<open>narrow_writes\<close> hands call \<open>i\<close> the bits of the value from \<open>8 * width * i\<close> on, cut
  to the handler's width.
\<close>

fun narrow_reads ::
  "('p \<Rightarrow> 64 word \<Rightarrow> ('w::len) word \<times> 'p) \<Rightarrow> nat \<Rightarrow> nat \<Rightarrow> 'p \<Rightarrow> 64 word \<Rightarrow> 'w word list \<times> 'p" where
  "narrow_reads fn w 0 p a = ([], p)"
| "narrow_reads fn w (Suc n) p a =
     (case fn p a of (r, p') \<Rightarrow>
        (case narrow_reads fn w n p' (a + of_nat w) of (rs, p'') \<Rightarrow> (r # rs, p'')))"

fun le_compose :: "nat \<Rightarrow> nat \<Rightarrow> ('w::len) word list \<Rightarrow> 32 word" where
  "le_compose w i [] = 0"
| "le_compose w i (r # rs) = push_bit (8 * w * i) (ucast r) OR le_compose w (Suc i) rs"

fun narrow_writes ::
  "('p \<Rightarrow> 64 word \<Rightarrow> ('w::len) word \<Rightarrow> 'p) \<Rightarrow> nat \<Rightarrow> nat \<Rightarrow> 'p \<Rightarrow> 64 word \<Rightarrow> nat \<Rightarrow> 32 word \<Rightarrow> 'p" where
  "narrow_writes fn w 0 p a i v = p"
| "narrow_writes fn w (Suc n) p a i v =
     narrow_writes fn w n (fn p a (ucast (drop_bit (8 * w * i) v))) (a + of_nat w) (Suc i) v"

text \<open>
  For the mapping of the BARs, following the claim's words: the base address decoded
  from the BAR register (the register without its type bits), whether the command
  register enables the BAR's kind of space, and the relation between the two and the
  mapping that is to hold of every enabled BAR. The pattern of a size probe is what the
  address bits of the register hold after the guest has written all ones to it: the
  writable bits, which are those from the size of the BAR up (\<open>example_probe\<close> below
  reads it back on the example device).
\<close>

definition bar_decoded :: "8 word list \<Rightarrow> nat \<Rightarrow> 'p pci_bar \<Rightarrow> 32 word" where
  "bar_decoded cfg index b =
     load_le32 cfg (PCI_BASE_ADDRESS_0 + index * 4)
       AND (if is_mmio b then PCI_BASE_ADDRESS_MEM_MASK else PCI_BASE_ADDRESS_IO_MASK)"

definition command_enables :: "8 word list \<Rightarrow> 'p pci_bar \<Rightarrow> bool" where
  "command_enables cfg b =
     (load_le16 cfg PCI_COMMAND
        AND (if is_mmio b then PCI_COMMAND_MEMORY else PCI_COMMAND_IO) \<noteq> 0)"

definition bars_follow_config :: "'p pci \<Rightarrow> bool" where
  "bars_follow_config s =
     (\<forall>i \<in> {0..<PCI_NUM_BAR}.
        enable (bar s ! i) \<longrightarrow>
          (addr (bar s ! i) \<noteq> PCI_BAR_UNMAPPED) =
            (command_enables (config s) (bar s ! i)
             \<and> bar_decoded (config s) i (bar s ! i) \<noteq> 0
             \<and> bar_decoded (config s) i (bar s ! i) \<noteq> NOT (size_bar (bar s ! i) - 1)))"

subsection \<open>A device to run the functions on\<close>

text \<open>
  A function at 00:03.0 with one memory BAR of 4 KiB. Its handler table has the two byte
  handlers only: a read returns the low byte of the offset, a write adds the offset and
  the value to a log, which is the BAR's private state. \<open>example_mapped\<close> is the device
  after the guest has enabled memory decoding and written 0x10000000 to BAR 0.
\<close>

definition log_ops :: "(64 word \<times> 8 word) list bar_ops" where
  "log_ops = \<lparr>map_op = None, unmap_op = None, readb = Some (\<lambda>p a. (ucast a, p)),
     readw = None, readl = None, writeb = Some (\<lambda>p a v. p @ [(a, v)]), writew = None,
     writel = None\<rparr>"

definition example_info :: pci_info where
  "example_info = \<lparr>bus = 0, device = 3, function_nr = 0, vendor_id = 0x5853,
     device_id = 0xc148, subvendor_id = 0x5853, subdevice_id = 0xc148, revision = 1,
     class_code = 0x08, subclass_code = 0x80, prog_if = 0, header_type = 0, command = 0,
     interrupt_pin = 0\<rparr>"

definition example_pci :: "(64 word \<times> 8 word) list pci" where
  "example_pci =
     snd (pci_bar_register (snd (pci_device_register (pci_zero []) example_info 0))
            0 0 12 (Some log_ops) [])"

definition example_mapped :: "(64 word \<times> 8 word) list pci" where
  "example_mapped =
     pci_config_write (pci_config_write example_pci 0x1800000004 2 2)
       0x1800000010 4 0x10000000"



section \<open>The build-time generator of authentication descriptors (create-auth.c)\<close>

subsection \<open>Constants and layouts of the headers\<close>

text \<open>
  Modelled from the spec: the sizes and offsets that create-auth.c takes from efi.h, a
  header that is not among the source files. The spec gives the layouts, all
  little-endian and packed: a GUID is 16 bytes; EFI_TIME is 16 bytes; the header of an
  EFI_SIGNATURE_LIST is SignatureType (GUID), SignatureListSize, SignatureHeaderSize and
  SignatureSize (three u32), 28 bytes; an entry starts with SignatureOwner (GUID), its
  data at offset 16; WIN_CERTIFICATE_UEFI_GUID is dwLength (u32), wRevision (u16),
  wCertificateType (u16) and CertType (GUID), its CertData at offset 24;
  EFI_VARIABLE_AUTHENTICATION_2 is an EFI_TIME followed by that, its CertData at offset
  40. wCertificateType is 0x0EF1.
\<close>

definition GUID_LEN :: nat where "GUID_LEN = 16"
definition sizeof_EFI_TIME :: nat where "sizeof_EFI_TIME = 16"
definition sizeof_EFI_SIGNATURE_LIST :: nat where "sizeof_EFI_SIGNATURE_LIST = 28"
definition offsetof_SignatureListSize :: nat where "offsetof_SignatureListSize = 16"
definition offsetof_SignatureHeaderSize :: nat where "offsetof_SignatureHeaderSize = 20"
definition offsetof_SignatureSize :: nat where "offsetof_SignatureSize = 24"
definition offsetof_SignatureData :: nat where "offsetof_SignatureData = 16"
definition offsetof_CertData :: nat where "offsetof_CertData = 24"
definition offsetof_AuthInfo_CertData :: nat where "offsetof_AuthInfo_CertData = 40"
definition WIN_CERT_TYPE_EFI_GUID :: "16 word" where "WIN_CERT_TYPE_EFI_GUID = 0x0EF1"

text \<open>
  The GUIDs of guid.h and the attribute bits of efi.h are not in the source files and
  the spec does not give their values: they are a parameter of the model.
\<close>

record efi_consts =
  gEfiGlobalVariableGuid :: "8 word list"
  gEfiImageSecurityDatabaseGuid :: "8 word list"
  gEfiCertX509Guid :: "8 word list"
  gEfiCertPkcs7Guid :: "8 word list"
  ATTR_BRNV :: "32 word"
  EFI_VARIABLE_TIME_BASED_AUTHENTICATED_WRITE_ACCESS :: "32 word"

text \<open>The two GUIDs that create-auth.c defines itself.\<close>

definition citrix_guid :: "8 word list" where
  "citrix_guid = [0x35, 0xc5, 0xac, 0xc0, 0xc8, 0x25, 0x46, 0x64,
                  0x92, 0x5b, 0x5d, 0xd7, 0xd0, 0xb2, 0xf5, 0xaa]"

definition microsoft_guid :: "8 word list" where
  "microsoft_guid = [0xbd, 0x9a, 0xfa, 0x77, 0x59, 0x03, 0x32, 0x4d,
                     0xbd, 0x60, 0x28, 0xf4, 0xe7, 0x8f, 0x78, 0x4b]"

subsection \<open>Structures and their bytes in memory\<close>

record EFI_TIME =
  Year :: "16 word"
  Month :: "8 word"
  Day :: "8 word"
  Hour :: "8 word"
  Minute :: "8 word"
  Second :: "8 word"
  Pad1 :: "8 word"
  Nanosecond :: "32 word"
  TimeZone :: "16 word"
  Daylight :: "8 word"
  Pad2 :: "8 word"

text \<open>
  The part of EFI_VARIABLE_AUTHENTICATION_2 before CertData, with the fields of
  \<open>AuthInfo.Hdr\<close> and \<open>AuthInfo\<close> side by side.
\<close>

record EFI_VARIABLE_AUTHENTICATION_2 =
  TimeStamp :: EFI_TIME
  dwLength :: "32 word"
  wRevision :: "16 word"
  wCertificateType :: "16 word"
  CertType :: "8 word list"

definition le16_bytes :: "16 word \<Rightarrow> 8 word list" where
  "le16_bytes v = [ucast v, ucast (drop_bit 8 v)]"

definition le32_bytes :: "32 word \<Rightarrow> 8 word list" where
  "le32_bytes v = [ucast v, ucast (drop_bit 8 v), ucast (drop_bit 16 v), ucast (drop_bit 24 v)]"

definition EFI_TIME_bytes :: "EFI_TIME \<Rightarrow> 8 word list" where
  "EFI_TIME_bytes t =
     le16_bytes (Year t) @ [Month t, Day t, Hour t, Minute t, Second t, Pad1 t]
       @ le32_bytes (Nanosecond t) @ le16_bytes (TimeZone t) @ [Daylight t, Pad2 t]"

definition descriptor_bytes :: "EFI_VARIABLE_AUTHENTICATION_2 \<Rightarrow> 8 word list" where
  "descriptor_bytes d =
     EFI_TIME_bytes (TimeStamp d) @ le32_bytes (dwLength d) @ le16_bytes (wRevision d)
       @ le16_bytes (wCertificateType d) @ take GUID_LEN (CertType d)"

text \<open>memcpy of \<open>n\<close> bytes of \<open>src\<close> to the offset \<open>off\<close> of the buffer \<open>dst\<close>.\<close>

definition memcpy :: "8 word list \<Rightarrow> nat \<Rightarrow> 8 word list \<Rightarrow> nat \<Rightarrow> 8 word list" where
  "memcpy dst off src n = take off dst @ take n src @ drop (off + n) dst"

subsection \<open>The world outside\<close>

text \<open>
  What the program gets from the C library and from OpenSSL: the certificate and the key
  read from a PEM file (\<open>None\<close> when the file cannot be opened or parsed), the DER
  encoding of a certificate (\<open>None\<close> when \<open>i2d_X509\<close> fails), the DER encoding of the
  detached PKCS\#7 SHA-256 signature of a message by a certificate and a key (\<open>None\<close>
  when one of the OpenSSL calls of \<open>sign_data\<close> fails), the broken-down UTC time of the
  run (\<open>None\<close> when \<open>gmtime\<close> fails), and whether the output file can be opened and
  written. Certificates and keys are values of the types \<open>'x\<close> and \<open>'k\<close>. Memory
  allocation is taken to succeed.
\<close>

record tm =
  tm_sec :: int
  tm_min :: int
  tm_hour :: int
  tm_mday :: int
  tm_mon :: int
  tm_year :: int

record ('x, 'k) world =
  read_X509 :: "string \<Rightarrow> 'x option"
  read_PrivateKey :: "string \<Rightarrow> 'k option"
  i2d_X509 :: "'x \<Rightarrow> 8 word list option"
  PKCS7_sign :: "'x \<Rightarrow> 'k \<Rightarrow> 8 word list \<Rightarrow> 8 word list option"
  gmtime :: "tm option"
  can_write :: "string \<Rightarrow> bool"

subsection \<open>certs_to_sig_list\<close>

text \<open>
  One round of the loop of \<open>certs_to_sig_list\<close> per certificate. \<open>data\<close> is the buffer,
  \<open>data_len\<close> its length and \<open>offset\<close> the place of the next write. realloc extends the
  buffer (the new bytes, unset in C, are 0 here; each of them is written in the round);
  the header of the list is written through the structure pointer, field by field in
  the order of the source, then the owner of the one entry, then the certificate.
  \<open>None\<close> is the exit after a failed \<open>i2d_X509\<close>; the two calls of \<open>i2d_X509\<close> for a
  certificate, the first for the length and the second for the bytes, are one encoding.
\<close>

fun certs_to_sig_list_loop ::
  "efi_consts \<Rightarrow> ('x, 'k) world \<Rightarrow> 'x list \<Rightarrow> 8 word list \<Rightarrow> 8 word list \<Rightarrow> nat \<Rightarrow> nat
     \<Rightarrow> (8 word list \<times> nat) option" where
  "certs_to_sig_list_loop g w [] vendor_guid data data_len offset = Some (data, data_len)"
| "certs_to_sig_list_loop g w (c # cs) vendor_guid data data_len offset =
     (case i2d_X509 w c of
        None \<Rightarrow> None
      | Some der \<Rightarrow>
          let len = length der;
              data_len1 = data_len + (sizeof_EFI_SIGNATURE_LIST + offsetof_SignatureData + len);
              d0 = data @ replicate (data_len1 - length data) 0;
              SignatureSize = (of_nat (offsetof_SignatureData + len) :: 32 word);
              d1 = store_le32 d0 (offset + offsetof_SignatureHeaderSize) 0;
              d2 = store_le32 d1 (offset + offsetof_SignatureSize) SignatureSize;
              d3 = store_le32 d2 (offset + offsetof_SignatureListSize)
                     (of_nat sizeof_EFI_SIGNATURE_LIST + SignatureSize);
              d4 = memcpy d3 offset (gEfiCertX509Guid g) GUID_LEN;
              offset1 = offset + sizeof_EFI_SIGNATURE_LIST;
              d5 = memcpy d4 offset1 vendor_guid GUID_LEN;
              offset2 = offset1 + offsetof_SignatureData;
              d6 = memcpy d5 offset2 der len;
              offset3 = offset2 + len
          in certs_to_sig_list_loop g w cs vendor_guid d6 data_len1 offset3)"

definition certs_to_sig_list ::
  "efi_consts \<Rightarrow> ('x, 'k) world \<Rightarrow> 'x list \<Rightarrow> 8 word list \<Rightarrow> (8 word list \<times> nat) option" where
  "certs_to_sig_list g w cert vendor_guid = certs_to_sig_list_loop g w cert vendor_guid [] 0 0"

subsection \<open>sign_data\<close>

text \<open>
  The buffer that \<open>sign_data\<close> fills and hands to OpenSSL: allocated with the sum of the
  five lengths (its bytes, unset in C, are 0 here), then filled by five memcpy calls at
  a moving pointer. \<open>name\<close> and \<open>data\<close> are the byte strings of the lengths \<open>name_len\<close>
  and \<open>data_len\<close>.
\<close>

definition sign_data_buf ::
  "8 word list \<Rightarrow> 8 word list \<Rightarrow> 32 word \<Rightarrow> EFI_TIME \<Rightarrow> 8 word list \<Rightarrow> 8 word list" where
  "sign_data_buf name guid attr timestamp data =
     (let name_len = length name;
          data_len = length data;
          len = name_len + GUID_LEN + 4 + sizeof_EFI_TIME + data_len;
          buf = replicate len 0;
          ptr = 0;
          buf1 = memcpy buf ptr name name_len;
          ptr1 = ptr + name_len;
          buf2 = memcpy buf1 ptr1 guid GUID_LEN;
          ptr2 = ptr1 + GUID_LEN;
          buf3 = memcpy buf2 ptr2 (le32_bytes attr) 4;
          ptr3 = ptr2 + 4;
          buf4 = memcpy buf3 ptr3 (EFI_TIME_bytes timestamp) sizeof_EFI_TIME;
          ptr4 = ptr3 + sizeof_EFI_TIME
      in memcpy buf4 ptr4 data data_len)"

text \<open>
  \<open>sign_data\<close>: without a key, no signature (NULL of length 0); with a key, the PKCS\#7
  signature of the buffer. \<open>None\<close> is the exit after a failed OpenSSL call; signing with
  a key and no certificate fails in \<open>PKCS7_sign_add_signer\<close>.
\<close>

definition sign_data ::
  "('x, 'k) world \<Rightarrow> 'x option \<Rightarrow> 'k option \<Rightarrow> 8 word list \<Rightarrow> 8 word list \<Rightarrow> 32 word \<Rightarrow> EFI_TIME
     \<Rightarrow> 8 word list \<Rightarrow> 8 word list option" where
  "sign_data w cert key name guid attr timestamp data =
     (case key of
        None \<Rightarrow> Some []
      | Some k \<Rightarrow>
          (case cert of
             None \<Rightarrow> None
           | Some c \<Rightarrow> PKCS7_sign w c k (sign_data_buf name guid attr timestamp data)))"

subsection \<open>create_descriptor\<close>

definition create_descriptor ::
  "efi_consts \<Rightarrow> nat \<Rightarrow> EFI_TIME \<Rightarrow> EFI_VARIABLE_AUTHENTICATION_2 \<times> nat" where
  "create_descriptor g sig_len timestamp =
     (\<lparr>TimeStamp = timestamp,
       dwLength = of_nat (sig_len + offsetof_CertData),
       wRevision = 0x0200,
       wCertificateType = WIN_CERT_TYPE_EFI_GUID,
       CertType = gEfiCertPkcs7Guid g\<rparr>,
      offsetof_AuthInfo_CertData)"

subsection \<open>main\<close>

text \<open>
  The options as getopt returns them: \<open>-c file\<close>, \<open>-k file\<close>, \<open>-h\<close>, or anything else.
\<close>

datatype opt = Opt_c string | Opt_k string | Opt_h | Opt_other

text \<open>
  The loop over the options. The result of a run is \<open>Inl\<close> with the exit status when
  the program leaves through \<open>exit\<close>.
\<close>

fun parse_opts ::
  "('x, 'k) world \<Rightarrow> opt list \<Rightarrow> 'k option \<Rightarrow> 'x option \<Rightarrow> int + ('k option \<times> 'x option)" where
  "parse_opts w [] sign_key sign_cert = Inr (sign_key, sign_cert)"
| "parse_opts w (Opt_c f # os) sign_key sign_cert =
     (case read_X509 w f of None \<Rightarrow> Inl 1 | Some c \<Rightarrow> parse_opts w os sign_key (Some c))"
| "parse_opts w (Opt_k f # os) sign_key sign_cert =
     (case read_PrivateKey w f of None \<Rightarrow> Inl 1 | Some k \<Rightarrow> parse_opts w os (Some k) sign_cert)"
| "parse_opts w (Opt_h # os) sign_key sign_cert = Inl 0"
| "parse_opts w (Opt_other # os) sign_key sign_cert = Inl 1"

text \<open>The GUID of the variable, by its name; \<open>None\<close> is ``Unsupported variable name''.\<close>

definition variable_guid :: "efi_consts \<Rightarrow> string \<Rightarrow> 8 word list option" where
  "variable_guid g name =
     (if name = ''PK'' \<or> name = ''KEK'' then Some (gEfiGlobalVariableGuid g)
      else if name = ''db'' \<or> name = ''dbx'' then Some (gEfiImageSecurityDatabaseGuid g)
      else None)"

definition vendor_guid_of :: "string \<Rightarrow> 8 word list" where
  "vendor_guid_of name = (if name = ''PK'' then citrix_guid else microsoft_guid)"

text \<open>The name as UCS-2: every character followed by a zero byte.\<close>

definition name_ucs2 :: "string \<Rightarrow> 8 word list" where
  "name_ucs2 name = concat (map (\<lambda>c. [of_char c, 0]) name)"

text \<open>The loop that reads the certificate files; \<open>None\<close> is the exit at the first failure.\<close>

fun load_certs :: "('x, 'k) world \<Rightarrow> string list \<Rightarrow> 'x list option" where
  "load_certs w [] = Some []"
| "load_certs w (f # fs) =
     (case read_X509 w f of
        None \<Rightarrow> None
      | Some c \<Rightarrow> (case load_certs w fs of None \<Rightarrow> None | Some cs \<Rightarrow> Some (c # cs)))"

definition timestamp_of :: "tm \<Rightarrow> EFI_TIME" where
  "timestamp_of t =
     \<lparr>Year = of_int (tm_year t + 1900), Month = of_int (tm_mon t + 1), Day = of_int (tm_mday t),
      Hour = of_int (tm_hour t), Minute = of_int (tm_min t), Second = of_int (tm_sec t),
      Pad1 = 0, Nanosecond = 0, TimeZone = 0, Daylight = 0, Pad2 = 0\<rparr>"

text \<open>
  \<open>main\<close>, for the options \<open>opts\<close> and the arguments \<open>args\<close> that follow them (name,
  output file, certificate files). A run that returns 0 has written the file: the result
  is \<open>Inr\<close> with the name of the file and its bytes.
\<close>

definition main ::
  "efi_consts \<Rightarrow> ('x, 'k) world \<Rightarrow> opt list \<Rightarrow> string list \<Rightarrow> int + (string \<times> 8 word list)" where
  "main g w opts args =
     (case parse_opts w opts None None of
        Inl e \<Rightarrow> Inl e
      | Inr (sign_key, sign_cert) \<Rightarrow>
          if (sign_key \<noteq> None \<and> sign_cert = None) \<or> (sign_key = None \<and> sign_cert \<noteq> None)
             \<or> length args < 3
          then Inl 1
          else
            (case variable_guid g (args ! 0) of
               None \<Rightarrow> Inl 1
             | Some guid \<Rightarrow>
                 let vendor_guid = vendor_guid_of (args ! 0);
                     name = name_ucs2 (args ! 0);
                     out_file = args ! 1;
                     attr = ATTR_BRNV g OR EFI_VARIABLE_TIME_BASED_AUTHENTICATED_WRITE_ACCESS g
                 in
                 (case load_certs w (drop 2 args) of
                    None \<Rightarrow> Inl 1
                  | Some cert \<Rightarrow>
                      (case gmtime w of
                         None \<Rightarrow> Inl 1
                       | Some t \<Rightarrow>
                           let timestamp = timestamp_of t in
                           (case certs_to_sig_list g w cert vendor_guid of
                              None \<Rightarrow> Inl 1
                            | Some (data, data_len) \<Rightarrow>
                                (case sign_data w sign_cert sign_key name guid attr timestamp
                                        data of
                                   None \<Rightarrow> Inl 1
                                 | Some sig \<Rightarrow>
                                     (case create_descriptor g (length sig) timestamp of
                                        (descriptor, descriptor_len) \<Rightarrow>
                                          if \<not> can_write w out_file then Inl 1
                                          else Inr (out_file,
                                                 take descriptor_len (descriptor_bytes descriptor)
                                                   @ take (length sig) sig
                                                   @ take data_len data))))))))"

subsection \<open>The claims' own words for the files\<close>

text \<open>
  Following the spec's words: an EFI_SIGNATURE_LIST with a single entry, the X.509
  certificate \<open>der\<close> owned by \<open>owner\<close>; the descriptor, cut at CertData, for a time and
  a signature of \<open>sig_len\<close> bytes; the signed message.
\<close>

definition signature_list :: "efi_consts \<Rightarrow> 8 word list \<Rightarrow> 8 word list \<Rightarrow> 8 word list" where
  "signature_list g owner der =
     gEfiCertX509Guid g
       @ le32_bytes (of_nat (sizeof_EFI_SIGNATURE_LIST + (offsetof_SignatureData + length der)))
       @ le32_bytes 0
       @ le32_bytes (of_nat (offsetof_SignatureData + length der))
       @ owner @ der"

definition auth_descriptor :: "efi_consts \<Rightarrow> EFI_TIME \<Rightarrow> nat \<Rightarrow> 8 word list" where
  "auth_descriptor g timestamp sig_len =
     EFI_TIME_bytes timestamp
       @ le32_bytes (of_nat (sig_len + offsetof_CertData))
       @ le16_bytes 0x0200
       @ le16_bytes WIN_CERT_TYPE_EFI_GUID
       @ gEfiCertPkcs7Guid g"

definition signed_message ::
  "8 word list \<Rightarrow> 8 word list \<Rightarrow> 32 word \<Rightarrow> EFI_TIME \<Rightarrow> 8 word list \<Rightarrow> 8 word list" where
  "signed_message name guid attr timestamp payload =
     name @ guid @ le32_bytes attr @ EFI_TIME_bytes timestamp @ payload"

text \<open>The GUIDs of the parameter are GUIDs: 16 bytes each.\<close>

definition guids_ok :: "efi_consts \<Rightarrow> bool" where
  "guids_ok g =
     (length (gEfiGlobalVariableGuid g) = GUID_LEN
      \<and> length (gEfiImageSecurityDatabaseGuid g) = GUID_LEN
      \<and> length (gEfiCertX509Guid g) = GUID_LEN
      \<and> length (gEfiCertPkcs7Guid g) = GUID_LEN)"

subsection \<open>A world to run the generator in\<close>

text \<open>
  GUIDs of sixteen equal bytes each; a certificate file holds its own name, whose DER
  encoding is the name after a byte 0x30; the key is a byte, and the signature of a
  message is the key followed by the message itself, so that the file shows what was
  signed; the run is on 2026-03-04 at 05:06:07.
\<close>

definition example_consts :: efi_consts where
  "example_consts = \<lparr>gEfiGlobalVariableGuid = replicate 16 0x11,
     gEfiImageSecurityDatabaseGuid = replicate 16 0x22,
     gEfiCertX509Guid = replicate 16 0x33, gEfiCertPkcs7Guid = replicate 16 0x44,
     ATTR_BRNV = 0x7, EFI_VARIABLE_TIME_BASED_AUTHENTICATED_WRITE_ACCESS = 0x20\<rparr>"

definition example_world :: "(8 word list, 8 word) world" where
  "example_world =
     \<lparr>read_X509 = (\<lambda>f. if f = ''missing.pem'' then None else Some (map of_char f)),
      read_PrivateKey = (\<lambda>f. Some 0x5a),
      i2d_X509 = (\<lambda>x. Some (0x30 # x)),
      PKCS7_sign = (\<lambda>c k m. Some (k # m)),
      gmtime = Some \<lparr>tm_sec = 7, tm_min = 6, tm_hour = 5, tm_mday = 4, tm_mon = 2,
                     tm_year = 126\<rparr>,
      can_write = (\<lambda>f. True)\<rparr>"

text \<open>
  The file expected of the run \<open>create-auth -k PK.key -c PK.pem PK PK.auth a\<close> in this
  world, put together from the claims' words.
\<close>

definition example_time :: EFI_TIME where
  "example_time = \<lparr>Year = 2026, Month = 3, Day = 4, Hour = 5, Minute = 6, Second = 7, Pad1 = 0,
     Nanosecond = 0, TimeZone = 0, Daylight = 0, Pad2 = 0\<rparr>"

definition example_payload :: "8 word list" where
  "example_payload = signature_list example_consts citrix_guid [0x30, 0x61]"

definition example_sig :: "8 word list" where
  "example_sig =
     0x5a # signed_message [0x50, 0, 0x4b, 0] (replicate 16 0x11) 0x27 example_time
              example_payload"

definition example_file :: "8 word list" where
  "example_file =
     auth_descriptor example_consts example_time (length example_sig) @ example_sig
       @ example_payload"

section \<open>Properties of the PCI function\<close>

subsection \<open>What the update of the BARs leaves alone\<close>

lemma update_bar_config [simp]: "config (pci_update_bar i s) = config s"
  by (simp add: pci_update_bar_def Let_def pci_map_bar_def pci_unmap_bar_def set_bar_addr_def)

lemma update_bar_mask [simp]: "mask_cfg (pci_update_bar i s) = mask_cfg s"
  by (simp add: pci_update_bar_def Let_def pci_map_bar_def pci_unmap_bar_def set_bar_addr_def)

lemma update_bar_bdf [simp]: "bdf (pci_update_bar i s) = bdf s"
  by (simp add: pci_update_bar_def Let_def pci_map_bar_def pci_unmap_bar_def set_bar_addr_def)

lemma update_bar_length [simp]: "length (bar (pci_update_bar i s)) = length (bar s)"
  by (simp add: pci_update_bar_def Let_def pci_map_bar_def pci_unmap_bar_def set_bar_addr_def)

lemma fold_update_bar_config [simp]: "config (fold pci_update_bar js s) = config s"
  by (induction js arbitrary: s) simp_all

lemma fold_update_bar_mask [simp]: "mask_cfg (fold pci_update_bar js s) = mask_cfg s"
  by (induction js arbitrary: s) simp_all

lemma fold_update_bar_bdf [simp]: "bdf (fold pci_update_bar js s) = bdf s"
  by (induction js arbitrary: s) simp_all

lemma update_config_config [simp]: "config (pci_update_config s) = config s"
  by (simp add: pci_update_config_def)

lemma update_config_mask [simp]: "mask_cfg (pci_update_config s) = mask_cfg s"
  by (simp add: pci_update_config_def)

lemma update_config_bdf [simp]: "bdf (pci_update_config s) = bdf s"
  by (simp add: pci_update_config_def)

subsection \<open>Shifts by less than 32\<close>

lemma shl32_lt: "n < 32 \<Longrightarrow> shl32 x n = push_bit n x"
  by (simp add: shl32_def)

lemma shr32_lt: "n < 32 \<Longrightarrow> shr32 x n = drop_bit n x"
  by (simp add: shr32_def)

subsection \<open>The writable mask\<close>

lemma write_step_length [simp]: "length (config_write_step m a v i cfg) = length cfg"
  by (simp add: config_write_step_def Let_def)

lemma mask_keep: "((c AND NOT m) OR (w AND m)) AND NOT m = c AND NOT (m :: 8 word)"
  by (simp add: bit_eq_iff bit_simps) blast

lemma write_step_frame:
  "config_write_step m a v i cfg ! k AND NOT (m ! k) = cfg ! k AND NOT (m ! k)"
proof (cases "k = unat (a + of_nat i) \<and> k < length cfg")
  case True
  then show ?thesis
    by (simp add: config_write_step_def Let_def mask_keep)
next
  case False
  then show ?thesis
    by (cases "unat (a + of_nat i) < length cfg")
       (auto simp: config_write_step_def Let_def list_update_beyond)
qed

lemma fold_write_step_frame:
  "fold (config_write_step m a v) js cfg ! k AND NOT (m ! k) = cfg ! k AND NOT (m ! k)"
  by (induction js arbitrary: cfg) (simp_all add: write_step_frame)

lemma fold_write_step_length [simp]:
  "length (fold (config_write_step m a v) js cfg) = length cfg"
  by (induction js arbitrary: cfg) simp_all

lemma example_mask:
  "mask_cfg example_pci =
     replicate 4 0 @ [0x07, 0x04] @ replicate 6 0 @ [0xff] @ replicate 3 0
       @ [0x00, 0xf0, 0xff, 0xff] @ replicate 40 0 @ [0xff] @ replicate 3 0
       @ replicate 192 0xff"
  by code_simp

text \<open>
  What the registration leaves in the masks: \<open>pci_device_register\<close> makes writable the
  bits IO, MEMORY, MASTER and INTX_DISABLE of the command register, the cache line size,
  the interrupt line and every byte from offset 64 on; \<open>pci_bar_register\<close> makes writable
  the bits of the BAR register from the size of the BAR up.
\<close>

lemma load_store_le32:
  assumes "off + 3 < length xs"
  shows "load_le32 (store_le32 xs off v) off = v"
proof -
  have "load_le32 (store_le32 xs off v) off =
          ucast (ucast v :: 8 word) OR push_bit 8 (ucast (ucast (drop_bit 8 v) :: 8 word))
            OR push_bit 16 (ucast (ucast (drop_bit 16 v) :: 8 word))
            OR push_bit 24 (ucast (ucast (drop_bit 24 v) :: 8 word))"
    using assms by (simp add: load_le32_def store_le32_def)
  also have "\<dots> = v"
  proof (rule bit_word_eqI)
    fix n
    assume "n < LENGTH(32)"
    then consider "n < 8" | "8 \<le> n" "n < 16" | "16 \<le> n" "n < 24" | "24 \<le> n" "n < 32"
      by fastforce
    then show "bit (ucast (ucast v :: 8 word) OR push_bit 8 (ucast (ucast (drop_bit 8 v) :: 8 word))
            OR push_bit 16 (ucast (ucast (drop_bit 16 v) :: 8 word))
            OR push_bit 24 (ucast (ucast (drop_bit 24 v) :: 8 word)) :: 32 word) n = bit v n"
      by cases (auto simp add: bit_simps)
  qed
  finally show ?thesis .
qed

lemma bar_register_mask:
  assumes "index < PCI_NUM_BAR" and "length (mask_cfg s) = PCI_CONFIG_SIZE"
    and "order < 32"
    and "pci_bar_register s index type order tab pr = (0, s')"
  shows "load_le32 (mask_cfg s') (PCI_BASE_ADDRESS_0 + index * 4) = NOT (push_bit order 1 - 1)"
proof -
  have "PCI_BASE_ADDRESS_0 + index * 4 + 3 < length (mask_cfg s)"
    using assms(1,2) by (simp add: PCI_BASE_ADDRESS_0_def PCI_NUM_BAR_def PCI_CONFIG_SIZE_def)
  then show ?thesis
    using assms(4) shl32_lt [OF assms(3), of 1]
    by (auto simp add: pci_bar_register_def Let_def load_store_le32
        split: if_splits option.splits)
qed

lemma store_le32_nth_other:
  assumes "j < off \<or> off + 4 \<le> j"
  shows "store_le32 xs off v ! j = xs ! j"
  using assms by (auto simp add: store_le32_def)

lemma length_store_le32 [simp]: "length (store_le32 xs off v) = length xs"
  by (simp add: store_le32_def)

lemma bar_register_mask_other:
  assumes "j < PCI_BASE_ADDRESS_0 + index * 4 \<or> PCI_BASE_ADDRESS_0 + index * 4 + 4 \<le> j"
  shows "mask_cfg (snd (pci_bar_register s index type order tab pr)) ! j = mask_cfg s ! j"
  using assms
  by (simp add: pci_bar_register_def Let_def store_le32_nth_other split: option.splits)

lemma bar_register_mask_length:
  "length (mask_cfg (snd (pci_bar_register s index type order tab pr))) = length (mask_cfg s)"
  by (simp add: pci_bar_register_def Let_def split: option.splits)

text \<open>The functions that do not register anything leave the masks alone.\<close>

lemma mask_kept:
  "mask_cfg (pci_config_resume s data) = mask_cfg s"
  "mask_cfg (pci_device_deregister s) = mask_cfg s"
  "mask_cfg (pci_bar_deregister index s) = mask_cfg s"
  by (simp_all add: pci_config_resume_def pci_device_deregister_def pci_bar_deregister_def
      Let_def)

lemma device_register_mask:
  assumes "pci_device_register (pci_zero p) info rc = (r, s')"
    and "bus info AND NOT 0xff = 0" and "device info AND NOT 0x1f = 0"
    and "function_nr info AND NOT 0x07 = 0"
  shows "mask_cfg s' =
     replicate 4 0 @ [0x07, 0x04] @ replicate 6 0 @ [0xff] @ replicate 47 0 @ [0xff]
       @ replicate 3 0 @ replicate 192 0xff"
proof -
  have "mask_cfg s' =
     memset (store_le16 ((replicate 256 0)[12 := 0xff, 60 := 0xff]) 4 0x0407) 64 0xff 192"
    using assms
    by (auto simp add: pci_device_register_def Let_def pci_zero_def PCI_CONFIG_SIZE_def
        PCI_CONFIG_HEADER_SIZE_def PCI_COMMAND_def PCI_CACHE_LINE_SIZE_def
        PCI_INTERRUPT_LINE_def PCI_COMMAND_IO_def PCI_COMMAND_MEMORY_def
        PCI_COMMAND_MASTER_def PCI_COMMAND_INTX_DISABLE_def)
  also have "\<dots> = replicate 4 0 @ [0x07, 0x04] @ replicate 6 0 @ [0xff] @ replicate 47 0 @ [0xff]
       @ replicate 3 0 @ replicate 192 0xff"
    by code_simp
  finally show ?thesis .
qed

lemma device_register_refused:
  assumes "bus info AND NOT 0xff \<noteq> 0 \<or> device info AND NOT 0x1f \<noteq> 0
           \<or> function_nr info AND NOT 0x07 \<noteq> 0"
  shows "pci_device_register s info rc = (-1, s)"
  using assms by (simp add: pci_device_register_def)

lemma example_bar_register:
  "fst (pci_bar_register (snd (pci_device_register (pci_zero []) example_info 0))
          0 0 12 (Some log_ops) []) = 0
   \<and> length (mask_cfg (snd (pci_device_register (pci_zero []) example_info 0)))
       = PCI_CONFIG_SIZE"
  by code_simp

text \<open>
  Claim C2. Whatever the address, the size and the value of a call of
  \<open>pci_config_write\<close> (so also when it is addressed to the registered BDF), every byte
  \<open>k\<close> of the configuration space keeps the bits that the writable mask of that byte
  clears: only bits set in the mask can change. The call changes neither the mask nor the
  size of the configuration space. The bits set in the masks are, after the registration
  of the device from the zeroed state, the bits IO, MEMORY, MASTER and INTX_DISABLE of the
  command register (0x07 and 0x04 at the offsets 4 and 5), the cache line size at 0x0c,
  the interrupt line at 0x3c and every byte from offset 64 on (none when the
  registration is refused). The registration of a BAR of an order below 32 makes
  writable, in the register of that BAR, the bits from the size of the BAR up; whatever
  the order and whether it succeeds or not, it leaves every mask byte \<open>j\<close> outside the
  four bytes of that register, and the length of the mask, as they were.
\<close>

theorem pci_config_write_frame:
  "config (pci_config_write s a sz v) ! k AND NOT (mask_cfg s ! k)
     = config s ! k AND NOT (mask_cfg s ! k)
   \<and> mask_cfg (pci_config_write s a sz v) = mask_cfg s
   \<and> length (config (pci_config_write s a sz v)) = length (config s)
   \<and> mask_cfg (snd (pci_device_register (pci_zero p) info rc)) =
       (if bus info AND NOT 0xff \<noteq> 0 \<or> device info AND NOT 0x1f \<noteq> 0
           \<or> function_nr info AND NOT 0x07 \<noteq> 0
        then replicate 256 0
        else replicate 4 0 @ [0x07, 0x04] @ replicate 6 0 @ [0xff] @ replicate 47 0 @ [0xff]
               @ replicate 3 0 @ replicate 192 0xff)
   \<and> (index < PCI_NUM_BAR \<and> length (mask_cfg s0) = PCI_CONFIG_SIZE \<and> order < 32
        \<and> fst (pci_bar_register s0 index type order tab pr) = 0 \<longrightarrow>
        load_le32 (mask_cfg (snd (pci_bar_register s0 index type order tab pr)))
          (PCI_BASE_ADDRESS_0 + index * 4) = NOT (push_bit order 1 - 1))
   \<and> (j < PCI_BASE_ADDRESS_0 + index * 4 \<or> PCI_BASE_ADDRESS_0 + index * 4 + 4 \<le> j \<longrightarrow>
        mask_cfg (snd (pci_bar_register s0 index type order tab pr)) ! j = mask_cfg s0 ! j)
   \<and> length (mask_cfg (snd (pci_bar_register s0 index type order tab pr)))
       = length (mask_cfg s0)"
proof -
  have dev: "mask_cfg (snd (pci_device_register (pci_zero p) info rc)) =
       (if bus info AND NOT 0xff \<noteq> 0 \<or> device info AND NOT 0x1f \<noteq> 0
           \<or> function_nr info AND NOT 0x07 \<noteq> 0
        then replicate 256 0
        else replicate 4 0 @ [0x07, 0x04] @ replicate 6 0 @ [0xff] @ replicate 47 0 @ [0xff]
               @ replicate 3 0 @ replicate 192 0xff)"
  proof (cases "bus info AND NOT 0xff \<noteq> 0 \<or> device info AND NOT 0x1f \<noteq> 0
           \<or> function_nr info AND NOT 0x07 \<noteq> 0")
    case True
    then show ?thesis
      by (simp add: device_register_refused pci_zero_def PCI_CONFIG_SIZE_def)
  next
    case False
    then show ?thesis
      using device_register_mask [of p info rc "fst (pci_device_register (pci_zero p) info rc)"
          "snd (pci_device_register (pci_zero p) info rc)"]
      by simp
  qed
  have bar: "load_le32 (mask_cfg (snd (pci_bar_register s0 index type order tab pr)))
          (PCI_BASE_ADDRESS_0 + index * 4) = NOT (push_bit order 1 - 1)"
    if "index < PCI_NUM_BAR" "length (mask_cfg s0) = PCI_CONFIG_SIZE" "order < 32"
      "fst (pci_bar_register s0 index type order tab pr) = 0"
    using that bar_register_mask [of index s0 order type tab pr
        "snd (pci_bar_register s0 index type order tab pr)"]
    by (simp add: prod_eq_iff)
  have other: "mask_cfg (snd (pci_bar_register s0 index type order tab pr)) ! j = mask_cfg s0 ! j"
    if "j < PCI_BASE_ADDRESS_0 + index * 4 \<or> PCI_BASE_ADDRESS_0 + index * 4 + 4 \<le> j"
    using that by (rule bar_register_mask_other)
  have frame: "config (pci_config_write s a sz v) ! k AND NOT (mask_cfg s ! k)
                 = config s ! k AND NOT (mask_cfg s ! k)"
    "mask_cfg (pci_config_write s a sz v) = mask_cfg s"
    "length (config (pci_config_write s a sz v)) = length (config s)"
    by (simp_all add: pci_config_write_def Let_def fold_write_step_frame)
  show ?thesis
    using dev bar other frame bar_register_mask_length [of s0 index type order tab pr]
    by blast
qed

text \<open>
  The masks of the example device, a function with one memory BAR of 4 KiB: in the
  register of BAR 0 the bits from bit 12 up, at offset 4, outside that register, what
  the registration of the device has left, and the whole mask byte by byte.
\<close>

theorem pci_config_write_frame_witness:
  "(0 :: nat) < PCI_NUM_BAR
   \<and> length (mask_cfg (snd (pci_device_register (pci_zero []) example_info 0)))
       = PCI_CONFIG_SIZE
   \<and> (12 :: nat) < 32
   \<and> fst (pci_bar_register (snd (pci_device_register (pci_zero []) example_info 0))
            0 0 12 (Some log_ops) []) = 0
   \<and> load_le32 (mask_cfg example_pci) (PCI_BASE_ADDRESS_0 + 0 * 4) = NOT (push_bit 12 1 - 1)
   \<and> (4 :: nat) < PCI_BASE_ADDRESS_0 + 0 * 4
   \<and> mask_cfg example_pci ! 4
       = mask_cfg (snd (pci_device_register
                          (pci_zero ([] :: (64 word \<times> 8 word) list)) example_info 0)) ! 4
   \<and> mask_cfg example_pci ! 4 = 0x07
   \<and> mask_cfg example_pci =
       replicate 4 0 @ [0x07, 0x04] @ replicate 6 0 @ [0xff] @ replicate 3 0
         @ [0x00, 0xf0, 0xff, 0xff] @ replicate 40 0 @ [0xff] @ replicate 3 0
         @ replicate 192 0xff"
proof -
  note parts =
    pci_config_write_frame [where index = 0
      and ?s0.0 = "snd (pci_device_register (pci_zero []) example_info 0)"
      and type = 0 and order = 12 and tab = "Some log_ops" and pr = "[]" and j = 4,
      THEN conjunct2, THEN conjunct2, THEN conjunct2, THEN conjunct2]
  note bar_part = parts [THEN conjunct1, THEN mp]
  note other_part = parts [THEN conjunct2, THEN conjunct1, THEN mp]
  have n: "(0 :: nat) < PCI_NUM_BAR"
    by (simp add: PCI_NUM_BAR_def)
  have o: "(12 :: nat) < 32"
    by simp
  have j: "(4 :: nat) < PCI_BASE_ADDRESS_0 + 0 * 4"
    by (simp add: PCI_BASE_ADDRESS_0_def)
  note ok = example_bar_register [THEN conjunct1]
  note len = example_bar_register [THEN conjunct2]
  have ld: "load_le32 (mask_cfg example_pci) (PCI_BASE_ADDRESS_0 + 0 * 4)
              = NOT (push_bit 12 1 - 1)"
    unfolding example_pci_def
    by (rule bar_part) (intro conjI n ok len o)
  have ot: "mask_cfg example_pci ! 4
              = mask_cfg (snd (pci_device_register
                                 (pci_zero ([] :: (64 word \<times> 8 word) list)) example_info 0)) ! 4"
    unfolding example_pci_def
    by (rule other_part) (rule disjI1, rule j)
  have v: "mask_cfg example_pci ! 4 = 0x07"
    by code_simp
  show ?thesis
    by (intro conjI) (rule n len o ok ld j ot v example_mask)+
qed

subsection \<open>Accesses addressed to another function\<close>

lemma ucast16_32_inj: "((ucast x :: 32 word) = ucast y) = ((x :: 16 word) = y)"
proof
  assume "(ucast x :: 32 word) = ucast y"
  then have "(ucast (ucast x :: 32 word) :: 16 word) = ucast (ucast y :: 32 word)"
    by simp
  then show "x = y"
    by (simp add: ucast_up_ucast_id is_up)
qed simp

text \<open>
  Claim C10. A \<open>pci_config_write\<close> whose address carries, in its bits from 32 up cut to 16
  bits, a BDF other than the registered one returns the state as it was: configuration
  space, masks, BARs and all. A \<open>pci_config_read\<close> whose 32-bit BDF field is not the
  registered BDF returns all ones, whatever the configuration space \<open>c\<close> holds.
\<close>

theorem pci_config_other_bdf:
  "((ucast (drop_bit 32 a) :: 16 word) \<noteq> bdf s \<longrightarrow> pci_config_write s a sz v = s)
   \<and> ((ucast (drop_bit 32 a) :: 32 word) \<noteq> ucast (bdf s)
        \<longrightarrow> pci_config_read (s\<lparr>config := c\<rparr>) a sz = NOT 0)"
  by (simp add: pci_config_write_def pci_config_read_def Let_def ucast16_32_inj)

theorem pci_config_other_bdf_witness:
  "(ucast (drop_bit 32 (0x100000000 :: 64 word)) :: 16 word) \<noteq> bdf (pci_zero ())
   \<and> pci_config_write (pci_zero ()) 0x100000000 4 0xffffffff = pci_zero ()
   \<and> (ucast (drop_bit 32 (0x100000000 :: 64 word)) :: 32 word) \<noteq> ucast (bdf (pci_zero ()))
   \<and> pci_config_read ((pci_zero ())\<lparr>config := replicate 256 0\<rparr>) 0x100000000 4 = NOT 0"
  using pci_config_other_bdf [of "0x100000000" "pci_zero ()" 4 "0xffffffff" "replicate 256 0"]
  by (simp add: pci_zero_def)

subsection \<open>A read that runs past the end of the configuration space\<close>

lemma ff_mask: "(0xff :: 64 word) = mask 8"
  by (simp add: mask_eq_exp_minus_1)

lemma bdf_field:
  "(ucast (drop_bit 32 (push_bit 32 (ucast (b :: 16 word)) OR (0xff :: 64 word))) :: 32 word)
     = ucast b"
  unfolding ff_mask by (rule bit_word_eqI) (auto simp add: bit_simps)

lemma bdf_low: "(push_bit 32 (ucast (b :: 16 word)) OR (0xff :: 64 word)) AND 0xff = 0xff"
  unfolding ff_mask by (rule bit_word_eqI) (auto simp add: bit_simps)

lemma upt2: "[0..<2] = [0, Suc 0]"
  by (simp add: upt_rec)

lemma lane1:
  "(ucast (drop_bit 8 (ucast (c :: 8 word) OR (0x1fe00 :: 32 word))) :: 8 word) = 0xfe"
proof -
  have "drop_bit 8 (ucast c :: 32 word) = 0"
    by (rule bit_word_eqI) (auto simp add: bit_simps dest: bit_imp_le_length)
  then show ?thesis
    by simp
qed

lemma config_read_last_two:
  "pci_config_read s (push_bit 32 (ucast (bdf s)) OR 0xff) 2
     = ucast (config s ! 255) OR 0x1fe00"
proof -
  let ?a = "push_bit 32 (ucast (bdf s)) OR (0xff :: 64 word)"
  have 1: "(ucast (drop_bit 32 ?a) :: 32 word) = ucast (bdf s)"
    by (rule bdf_field)
  have 2: "?a AND 0xff = 0xff"
    by (rule bdf_low)
  show ?thesis
    unfolding pci_config_read_def Let_def 1 2
    by (simp add: upt2 config_read_step_def shl32_def PCI_CONFIG_SIZE_def)
qed

text \<open>
  Claim C3 (the code departs from it). A two-byte read at offset 0xff of the registered
  function has its second byte at offset 0x100, past the configuration space, so byte
  lane 1 of the result should be 0xff. The loop of \<open>pci_config_read\<close> shifts 0xff by
  \<open>i + 8\<close> and not by \<open>i * 8\<close>: in every state the result is the last byte of the
  configuration space or-ed with \<open>0xff << 9\<close>, so lane 1 reads 0xfe and bit 16, which
  belongs to lane 2, is set.
\<close>

theorem pci_config_read_past_end:
  "pci_config_read s (push_bit 32 (ucast (bdf s)) OR 0xff) 2
     = ucast (config s ! 255) OR 0x1fe00
   \<and> (ucast (drop_bit 8 (pci_config_read s (push_bit 32 (ucast (bdf s)) OR 0xff) 2)) :: 8 word)
       = 0xfe"
  by (simp only: config_read_last_two lane1)

subsection \<open>The encoding of offset and length in the size of a write\<close>

lemma unat_and_ff: "unat (a AND (0xff :: 64 word)) \<le> 255"
  using word_and_le1 [of a "0xff"] by (simp add: word_le_nat_alt)

lemma unat_drop16: "unat (drop_bit 16 (sz :: 64 word)) < 2 ^ 48"
proof -
  have "unat sz < 2 ^ 64"
    using unsigned_less [of sz] by simp
  moreover have "unat (drop_bit 16 sz) = drop_bit 16 (unat sz)"
    by (rule unat_drop_bit_eq)
  moreover have "drop_bit 16 (unat sz) = unat sz div 2 ^ 16"
    by (rule drop_bit_eq_div)
  ultimately show ?thesis
    by simp
qed

lemma unat_and_ffff: "unat (sz AND (0xffff :: 64 word)) \<le> 65535"
  using word_and_le1 [of sz "0xffff"] by (simp add: word_le_nat_alt)

text \<open>The 64-bit sum \<open>addr + i\<close> of the write loop never wraps.\<close>

lemma write_addr_no_wrap:
  assumes "i < 65536"
  shows "unat ((a AND 0xff) + drop_bit 16 sz + (of_nat i :: 64 word))
           = unat (a AND 0xff) + unat (drop_bit 16 sz) + i"
proof -
  have i: "unat (of_nat i :: 64 word) = i"
    using assms by (simp add: unat_of_nat)
  have 1: "unat ((a AND 0xff) + drop_bit 16 sz) = unat (a AND 0xff) + unat (drop_bit 16 sz)"
    using unat_and_ff [of a] unat_drop16 [of sz] by (simp add: unat_add_lem [THEN iffD1])
  have "unat ((a AND 0xff) + drop_bit 16 sz) + unat (of_nat i :: 64 word) < 2 ^ 64"
    using unat_and_ff [of a] unat_drop16 [of sz] assms by (simp add: 1 i)
  then have "unat ((a AND 0xff) + drop_bit 16 sz + (of_nat i :: 64 word))
           = unat ((a AND 0xff) + drop_bit 16 sz) + unat (of_nat i :: 64 word)"
    by (simp add: unat_add_lem [THEN iffD1])
  then show ?thesis
    by (simp add: 1 i)
qed

lemma fold_write_step_nth:
  assumes "\<And>i. i < n \<Longrightarrow> unat (a1 + of_nat i) = off + i"
    and "length cfg = PCI_CONFIG_SIZE" and "k < PCI_CONFIG_SIZE"
  shows "fold (config_write_step m a1 v) [0..<n] cfg ! k =
          (if off \<le> k \<and> k < off + n
           then (cfg ! k AND NOT (m ! k)) OR (ucast (shr32 v ((k - off) * 8)) AND m ! k)
           else cfg ! k)"
  using assms(1)
proof (induction n)
  case 0
  then show ?case by auto
next
  case (Suc n)
  have ih: "fold (config_write_step m a1 v) [0..<n] cfg ! k =
          (if off \<le> k \<and> k < off + n
           then (cfg ! k AND NOT (m ! k)) OR (ucast (shr32 v ((k - off) * 8)) AND m ! k)
           else cfg ! k)"
    using Suc by simp
  have a: "unat (a1 + of_nat n) = off + n"
    using Suc.prems by simp
  have step: "config_write_step m a1 v n c =
      (if off + n < PCI_CONFIG_SIZE
       then c[off + n := (c ! (off + n) AND NOT (m ! (off + n)))
                          OR (ucast (shr32 v (n * 8)) AND m ! (off + n))]
       else c)" for c
    by (simp add: config_write_step_def Let_def a)
  show ?case
  proof (cases "k = off + n")
    case True
    have "fold (config_write_step m a1 v) [0..<n] cfg ! (off + n) = cfg ! (off + n)"
      using ih True by simp
    then show ?thesis
      using assms(2,3) True by (simp add: step)
  next
    case False
    then show ?thesis
      using assms(2,3) by (auto simp add: step ih)
  qed
qed

text \<open>
  Claim C6. In a write addressed to the registered function, the bytes written are those
  at the offsets from \<open>(addr & 0xff) + (size >> 16)\<close> on, \<open>size & 0xffff\<close> of them: a
  byte \<open>k\<close> of the configuration space outside this range is unchanged, and each of the
  first four bytes of the range takes its writable bits from the byte of the value that
  lies \<open>k\<close> minus that offset bytes up. (From the fifth byte of the range on the byte
  written comes from a shift of the 32-bit value by 32 or more, of which nothing is said
  here.)
\<close>

theorem pci_config_write_size_encoding:
  assumes "(ucast (drop_bit 32 a) :: 16 word) = bdf s"
    and "length (config s) = PCI_CONFIG_SIZE"
    and "k < PCI_CONFIG_SIZE"
  shows "(unat (a AND 0xff) + unat (drop_bit 16 sz) \<le> k
            \<and> k < unat (a AND 0xff) + unat (drop_bit 16 sz) + unat (sz AND 0xffff)
            \<and> k < unat (a AND 0xff) + unat (drop_bit 16 sz) + 4 \<longrightarrow>
          config (pci_config_write s a sz v) ! k =
            (config s ! k AND NOT (mask_cfg s ! k))
              OR (ucast (drop_bit ((k - (unat (a AND 0xff) + unat (drop_bit 16 sz))) * 8) v)
                    AND mask_cfg s ! k))
         \<and> (\<not> (unat (a AND 0xff) + unat (drop_bit 16 sz) \<le> k
                 \<and> k < unat (a AND 0xff) + unat (drop_bit 16 sz) + unat (sz AND 0xffff)) \<longrightarrow>
              config (pci_config_write s a sz v) ! k = config s ! k)"
proof -
  let ?off = "unat (a AND 0xff) + unat (drop_bit 16 sz)"
  have "unat ((a AND 0xff) + drop_bit 16 sz + of_nat i) = ?off + i"
    if "i < unat (sz AND 0xffff)" for i
    using that unat_and_ffff [of sz] by (intro write_addr_no_wrap) simp
  from fold_write_step_nth [of "unat (sz AND 0xffff)" "(a AND 0xff) + drop_bit 16 sz"
      ?off "config s" k "mask_cfg s" v, OF this assms(2,3)]
  have all: "config (pci_config_write s a sz v) ! k =
          (if ?off \<le> k \<and> k < ?off + unat (sz AND 0xffff)
           then (config s ! k AND NOT (mask_cfg s ! k))
                  OR (ucast (shr32 v ((k - ?off) * 8)) AND mask_cfg s ! k)
           else config s ! k)"
    using assms(1) by (simp add: pci_config_write_def Let_def)
  have "shr32 v ((k - ?off) * 8) = drop_bit ((k - ?off) * 8) v" if "k < ?off + 4"
    using that by (intro shr32_lt) simp
  then show ?thesis
    unfolding all by simp
qed

text \<open>
  The claim at work: every mask byte 0xf0, a write to offset 0x40 with the size 0x20002
  of the value 0xabcd. The bytes written are those at 0x42 and 0x43; the bytes at 0x40
  and at 0x44 are as they were.
\<close>

theorem pci_config_write_size_encoding_witness:
  "(ucast (drop_bit 32 (0x40 :: 64 word)) :: 16 word)
      = bdf ((pci_zero ())\<lparr>mask_cfg := replicate 256 0xf0\<rparr>)
   \<and> length (config ((pci_zero ())\<lparr>mask_cfg := replicate 256 0xf0\<rparr>)) = PCI_CONFIG_SIZE
   \<and> (0x44 :: nat) < PCI_CONFIG_SIZE
   \<and> config (pci_config_write ((pci_zero ())\<lparr>mask_cfg := replicate 256 0xf0\<rparr>)
               0x40 0x20002 0xabcd) ! 0x42 = 0xc0
   \<and> config (pci_config_write ((pci_zero ())\<lparr>mask_cfg := replicate 256 0xf0\<rparr>)
               0x40 0x20002 0xabcd) ! 0x43 = 0xa0
   \<and> config (pci_config_write ((pci_zero ())\<lparr>mask_cfg := replicate 256 0xf0\<rparr>)
               0x40 0x20002 0xabcd) ! 0x40 = 0
   \<and> config (pci_config_write ((pci_zero ())\<lparr>mask_cfg := replicate 256 0xf0\<rparr>)
               0x40 0x20002 0xabcd) ! 0x44 = 0"
  using pci_config_write_size_encoding
          [of "0x40" "(pci_zero ())\<lparr>mask_cfg := replicate 256 0xf0\<rparr>" "0x42" "0x20002" "0xabcd"]
    pci_config_write_size_encoding
          [of "0x40" "(pci_zero ())\<lparr>mask_cfg := replicate 256 0xf0\<rparr>" "0x43" "0x20002" "0xabcd"]
    pci_config_write_size_encoding
          [of "0x40" "(pci_zero ())\<lparr>mask_cfg := replicate 256 0xf0\<rparr>" "0x40" "0x20002" "0xabcd"]
    pci_config_write_size_encoding
          [of "0x40" "(pci_zero ())\<lparr>mask_cfg := replicate 256 0xf0\<rparr>" "0x44" "0x20002" "0xabcd"]
  by (simp add: pci_zero_def PCI_CONFIG_SIZE_def)

subsection \<open>The BARs follow the configuration space\<close>



















text \<open>
  The size probe on the example device: the guest writes all ones to the mapped BAR 0. The
  address then decoded from the register is the mask of the size of the BAR, and the BAR
  is unmapped.
\<close>

lemma example_probe:
  "map addr (bar example_mapped) = [0x10000000, 0, 0, 0, 0, 0]
   \<and> map addr (bar (pci_config_write example_mapped 0x1800000010 4 0xffffffff))
       = [PCI_BAR_UNMAPPED, 0, 0, 0, 0, 0]
   \<and> bar_decoded (config (pci_config_write example_mapped 0x1800000010 4 0xffffffff)) 0
         (bar (pci_config_write example_mapped 0x1800000010 4 0xffffffff) ! 0)
       = NOT (size_bar (bar (pci_config_write example_mapped 0x1800000010 4 0xffffffff) ! 0) - 1)"
  by code_simp





text \<open>The relation holds of the device before any registration: no BAR is enabled.\<close>

lemma bars_follow_config_zero: "bars_follow_config (pci_zero p)"
  by (simp add: bars_follow_config_def pci_zero_def null_bar_def PCI_NUM_BAR_def)

subsection \<open>The decomposition of wide BAR accesses\<close>

lemma read_loop_narrow:
  "bar_read_loop fn w n p a (8 * w * i) v =
     (case narrow_reads fn w n p a of (rs, p') \<Rightarrow> (v OR le_compose w i rs, p'))"
proof (induction n arbitrary: p a i v)
  case 0
  then show ?case by simp
next
  case (Suc n)
  obtain r p' where fn: "fn p a = (r, p')"
    by (cases "fn p a")
  have "bar_read_loop fn w (Suc n) p a (8 * w * i) v =
          bar_read_loop fn w n p' (a + of_nat w) (8 * w * Suc i)
            (v OR push_bit (8 * w * i) (ucast r))"
    by (simp add: fn add.commute)
  also have "\<dots> = (case narrow_reads fn w n p' (a + of_nat w) of
                      (rs, p'') \<Rightarrow> ((v OR push_bit (8 * w * i) (ucast r))
                                      OR le_compose w (Suc i) rs, p''))"
    by (rule Suc.IH)
  also have "\<dots> = (case narrow_reads fn w (Suc n) p a of
                      (rs, p'') \<Rightarrow> (v OR le_compose w i rs, p''))"
    by (simp add: fn or.assoc split: prod.splits)
  finally show ?case .
qed

lemma PCI_BAR_READ_narrow:
  "PCI_BAR_READ fn p a w n =
     (case narrow_reads fn w n p a of (rs, p') \<Rightarrow> (le_compose w 0 rs, p'))"
  using read_loop_narrow [of fn w n p a 0 0] by (simp add: PCI_BAR_READ_def)

text \<open>
  The composition is the wide little-endian value: two bytes make the 16-bit word with
  the first byte low, four bytes or two 16-bit words the 32-bit word likewise. So a
  decomposed read of a device whose wide handlers would return these words returns what
  they would.
\<close>

lemma le_compose_two_bytes:
  "le_compose 1 0 [b0, b1 :: 8 word] = ucast (word_cat b1 b0 :: 16 word)"
  by (rule bit_word_eqI) (auto simp add: bit_simps dest: bit_imp_le_length)

lemma le_compose_four_bytes:
  "le_compose 1 0 [b0, b1, b2, b3 :: 8 word]
     = word_cat (word_cat b3 b2 :: 16 word) (word_cat b1 b0 :: 16 word)"
  by (rule bit_word_eqI) (auto simp add: bit_simps dest: bit_imp_le_length)

lemma le_compose_two_words:
  "le_compose 2 0 [w0, w1 :: 16 word] = word_cat w1 w0"
  by (rule bit_word_eqI) (auto simp add: bit_simps dest: bit_imp_le_length)

lemma example_get: "pci_bar_get example_mapped True 0x10000004 = Some 0"
  by code_simp

lemma example_readw: "readw (ops (bar example_mapped ! 0)) = None"
  by code_simp

lemma example_readl: "readl (ops (bar example_mapped ! 0)) = None"
  by code_simp

lemma example_read2:
  "map_option fst (pci_bar_read example_mapped True 0x10000004 2) = Some 0x0504"
  by code_simp

lemma example_read4:
  "map_option fst (pci_bar_read example_mapped True 0x10000004 4) = Some 0x07060504"
  by code_simp

text \<open>
  Claim C5. A read of 2 or 4 bytes from the BAR that holds the address, when the handler
  table has no handler of that width, returns the little-endian composition of the
  narrower reads: the handler is called at the relative offsets \<open>addr + i * width\<close> in
  rising order (\<open>narrow_reads\<close>), result \<open>i\<close> is shifted left by \<open>8 * width * i\<close> bits
  (\<open>le_compose\<close>), and the private state is the one after the last call. Two bytes are
  read when \<open>readw\<close> is missing; for four bytes, two 16-bit words when only \<open>readl\<close> is
  missing and four bytes when \<open>readw\<close> is missing too. By \<open>le_compose_two_bytes\<close>,
  \<open>le_compose_four_bytes\<close> and \<open>le_compose_two_words\<close> the value is the wide word made
  of the same bytes.
\<close>

theorem pci_bar_read_decomposed:
  assumes "pci_bar_get s m a = Some i"
  shows "(readw (ops (bar s ! i)) = None \<longrightarrow>
            pci_bar_read s m a 2 =
              (case readb (ops (bar s ! i)) of
                 None \<Rightarrow> None
               | Some rb \<Rightarrow>
                  (case narrow_reads rb 1 2 (priv (bar s ! i)) (a - ucast (addr (bar s ! i))) of
                     (rs, p') \<Rightarrow>
                       Some (le_compose 1 0 rs,
                             s\<lparr>bar := (bar s)[i := (bar s ! i)\<lparr>priv := p'\<rparr>]\<rparr>))))
       \<and> (readl (ops (bar s ! i)) = None \<and> readw (ops (bar s ! i)) = None \<longrightarrow>
            pci_bar_read s m a 4 =
              (case readb (ops (bar s ! i)) of
                 None \<Rightarrow> None
               | Some rb \<Rightarrow>
                  (case narrow_reads rb 1 4 (priv (bar s ! i)) (a - ucast (addr (bar s ! i))) of
                     (rs, p') \<Rightarrow>
                       Some (le_compose 1 0 rs,
                             s\<lparr>bar := (bar s)[i := (bar s ! i)\<lparr>priv := p'\<rparr>]\<rparr>))))
       \<and> (readl (ops (bar s ! i)) = None \<and> readw (ops (bar s ! i)) = Some rw \<longrightarrow>
            pci_bar_read s m a 4 =
              (case narrow_reads rw 2 2 (priv (bar s ! i)) (a - ucast (addr (bar s ! i))) of
                 (rs, p') \<Rightarrow>
                   Some (le_compose 2 0 rs,
                         s\<lparr>bar := (bar s)[i := (bar s ! i)\<lparr>priv := p'\<rparr>]\<rparr>)))"
  using assms
  by (simp add: pci_bar_read_def bar_read_switch_def Let_def PCI_BAR_READ_narrow
      split: prod.splits option.splits)

text \<open>
  On the example device, whose BAR has byte handlers only: the bytes at the offsets 4 to
  7 read 4, 5, 6 and 7.
\<close>

theorem pci_bar_read_decomposed_witness:
  "pci_bar_get example_mapped True 0x10000004 = Some 0
   \<and> readw (ops (bar example_mapped ! 0)) = None
   \<and> readl (ops (bar example_mapped ! 0)) = None
   \<and> pci_bar_read example_mapped True 0x10000004 2 =
       (case readb (ops (bar example_mapped ! 0)) of
          None \<Rightarrow> None
        | Some rb \<Rightarrow>
           (case narrow_reads rb 1 2 (priv (bar example_mapped ! 0))
                   (0x10000004 - ucast (addr (bar example_mapped ! 0))) of
              (rs, p') \<Rightarrow>
                Some (le_compose 1 0 rs,
                      example_mapped\<lparr>bar := (bar example_mapped)
                                        [0 := (bar example_mapped ! 0)\<lparr>priv := p'\<rparr>]\<rparr>)))
   \<and> map_option fst (pci_bar_read example_mapped True 0x10000004 2) = Some 0x0504
   \<and> map_option fst (pci_bar_read example_mapped True 0x10000004 4) = Some 0x07060504"
  using pci_bar_read_decomposed [OF example_get, of rw] example_get example_readw example_readl
    example_read2 example_read4
  by simp

lemma write_loop_narrow:
  "bar_write_loop fn w n p a (8 * w * i) v = narrow_writes fn w n p a i v"
proof (induction n arbitrary: p a i)
  case 0
  then show ?case by simp
next
  case (Suc n)
  have "bar_write_loop fn w (Suc n) p a (8 * w * i) v =
          bar_write_loop fn w n (fn p a (ucast (drop_bit (8 * w * i) v))) (a + of_nat w)
            (8 * w * Suc i) v"
    by (simp add: add.commute)
  also have "\<dots> = narrow_writes fn w n (fn p a (ucast (drop_bit (8 * w * i) v))) (a + of_nat w)
                      (Suc i) v"
    by (rule Suc.IH)
  finally show ?case by simp
qed

text \<open>
  Claim C4 (the code departs from it). The macro \<open>PCI_BAR_WRITE\<close> starts, like
  \<open>PCI_BAR_READ\<close>, by setting \<open>_val\<close> to 0, and \<open>_val\<close> is the value to write: whatever
  the value, the narrow handlers are called as for a write of 0. On the example device a
  two-byte write of 0x1234 at offset 4 of the BAR logs the bytes 0 and 0 at the offsets 4
  and 5, where the slices of the value are 0x34 and 0x12.
\<close>

theorem pci_bar_write_decomposed_zero:
  "PCI_BAR_WRITE fn p a w n v = narrow_writes fn w n p a 0 0
   \<and> map_option (\<lambda>s. priv (bar s ! 0)) (pci_bar_write example_mapped True 0x10000004 2 0x1234)
       = Some [(4, 0), (5, 0)]
   \<and> narrow_writes (the (writeb log_ops)) 1 2 [] 4 0 0x1234 = [(4, 0x34), (5, 0x12)]"
proof -
  have 1: "PCI_BAR_WRITE fn p a w n v = narrow_writes fn w n p a 0 0"
    using write_loop_narrow [of fn w n p a 0 0] by (simp add: PCI_BAR_WRITE_def)
  have 2: "map_option (\<lambda>s. priv (bar s ! 0))
             (pci_bar_write example_mapped True 0x10000004 2 0x1234) = Some [(4, 0), (5, 0)]"
    by code_simp
  have 3: "narrow_writes (the (writeb log_ops)) 1 2 [] 4 0 0x1234 = [(4, 0x34), (5, 0x12)]"
    by code_simp
  from 1 2 3 show ?thesis by simp
qed

subsection \<open>When registration keeps the BARs in step with the configuration space\<close>

text \<open>
  The registration functions write the configuration space and do not run
  \<open>pci_update_config\<close>. They keep the relation between the BARs and the configuration
  space in two cases, which the code does not check for: \<open>pci_device_register\<close> while
  no BAR is enabled, and \<open>pci_bar_register\<close> when the type byte has no bit among the
  address bits of its kind of BAR, since the new BAR is unmapped and its register then
  decodes to 0. \<open>example_unsynced\<close> is a registration outside the second case.
\<close>

lemma load_le32_store_le32_other:
  assumes "off' + 3 < off \<or> off + 3 < off'"
  shows "load_le32 (store_le32 xs off v) off' = load_le32 xs off'"
  using assms by (auto simp add: load_le32_def store_le32_def)

lemma load_le16_store_le32_other:
  assumes "off' + 1 < off \<or> off + 3 < off'"
  shows "load_le16 (store_le32 xs off v) off' = load_le16 xs off'"
  using assms by (auto simp add: load_le16_def store_le32_def)

lemma device_register_keeps:
  assumes "\<forall>i \<in> {0..<PCI_NUM_BAR}. \<not> enable (bar s ! i)"
  shows "bars_follow_config (snd (pci_device_register s info rc))"
  using assms by (simp add: bars_follow_config_def pci_device_register_def Let_def)

lemma bar_register_keeps:
  assumes inv: "bars_follow_config s"
    and len: "length (config s) = PCI_CONFIG_SIZE" "length (bar s) = PCI_NUM_BAR"
    and ty: "ucast type AND (if type AND PCI_BASE_ADDRESS_SPACE_IO = 0
                             then PCI_BASE_ADDRESS_MEM_MASK else PCI_BASE_ADDRESS_IO_MASK) = 0"
  shows "bars_follow_config (snd (pci_bar_register s index type order tab pr))"
proof (cases "fst (pci_bar_register s index type order tab pr) = 0")
  case False
  then have "snd (pci_bar_register s index type order tab pr) = s"
    by (auto simp add: pci_bar_register_def Let_def split: option.splits)
  then show ?thesis
    using inv by simp
next
  case True
  then obtain o_tab where tab: "tab = Some o_tab" and idx: "index < PCI_NUM_BAR"
    by (auto simp add: pci_bar_register_def Let_def split: option.splits if_splits)
  let ?off = "PCI_BASE_ADDRESS_0 + index * 4"
  let ?b = "(bar s ! index)\<lparr>ops := o_tab,
                      is_mmio := (type AND PCI_BASE_ADDRESS_SPACE_IO = 0),
                      size_bar := shl32 1 order, enable := True, addr := PCI_BAR_UNMAPPED,
                      priv := pr\<rparr>"
  let ?s' = "snd (pci_bar_register s index type order tab pr)"
  have s': "config ?s' = store_le32 (config s) ?off (ucast type)"
    "bar ?s' = (bar s)[index := ?b]"
    using True tab idx
    by (auto simp add: pci_bar_register_def Let_def split: option.splits if_splits)
  have cmd: "load_le16 (config ?s') PCI_COMMAND = load_le16 (config s) PCI_COMMAND"
    unfolding s' by (rule load_le16_store_le32_other)
      (simp add: PCI_COMMAND_def PCI_BASE_ADDRESS_0_def)
  have own: "load_le32 (config ?s') ?off = ucast type"
    unfolding s' using idx len
    by (intro load_store_le32)
      (simp add: PCI_BASE_ADDRESS_0_def PCI_NUM_BAR_def PCI_CONFIG_SIZE_def)
  have other: "load_le32 (config ?s') (PCI_BASE_ADDRESS_0 + i * 4)
                 = load_le32 (config s) (PCI_BASE_ADDRESS_0 + i * 4)" if "i \<noteq> index" for i
    unfolding s' using that by (intro load_le32_store_le32_other) auto
  show ?thesis
    unfolding bars_follow_config_def
  proof (intro ballI impI)
    fix i
    assume i: "i \<in> {0..<PCI_NUM_BAR}" and en: "enable (bar ?s' ! i)"
    show "(addr (bar ?s' ! i) \<noteq> PCI_BAR_UNMAPPED) =
            (command_enables (config ?s') (bar ?s' ! i)
             \<and> bar_decoded (config ?s') i (bar ?s' ! i) \<noteq> 0
             \<and> bar_decoded (config ?s') i (bar ?s' ! i) \<noteq> NOT (size_bar (bar ?s' ! i) - 1))"
    proof (cases "i = index")
      case True
      have "bar ?s' ! i = ?b"
        using True idx len by (simp add: s')
      moreover have "bar_decoded (config ?s') index ?b = 0"
        using ty by (simp add: bar_decoded_def own)
      ultimately show ?thesis
        using True by simp
    next
      case False
      have b: "bar ?s' ! i = bar s ! i"
        using False by (simp add: s')
      have "bar_decoded (config ?s') i (bar s ! i) = bar_decoded (config s) i (bar s ! i)"
        "command_enables (config ?s') (bar s ! i) = command_enables (config s) (bar s ! i)"
        using other [OF False] cmd by (simp_all add: bar_decoded_def command_enables_def)
      then show ?thesis
        using inv i en unfolding b by (simp add: bars_follow_config_def)
    qed
  qed
qed

section \<open>Properties of the generator of authentication descriptors\<close>

subsection \<open>The buffers\<close>

lemma length_le16_bytes [simp]: "length (le16_bytes v) = 2"
  by (simp add: le16_bytes_def)

lemma length_le32_bytes [simp]: "length (le32_bytes v) = 4"
  by (simp add: le32_bytes_def)

lemma length_EFI_TIME_bytes [simp]: "length (EFI_TIME_bytes t) = 16"
  by (simp add: EFI_TIME_bytes_def)

lemma memcpy_segment:
  assumes "length a = off" and "length old = n" and "n \<le> length src"
  shows "memcpy (a @ old @ b) off src n = a @ take n src @ b"
  using assms by (simp add: memcpy_def)

lemma store_le32_segment:
  assumes "length a = off" and "length old = 4"
  shows "store_le32 (a @ old @ b) off v = a @ le32_bytes v @ b"
proof -
  obtain o0 o1 o2 o3 where old: "old = [o0, o1, o2, o3]"
    using assms(2) by (auto simp add: length_Suc_conv eval_nat_numeral)
  show ?thesis
    using assms(1) by (simp add: old store_le32_def le32_bytes_def list_update_append)
qed

lemma sign_data_buf_concat:
  assumes "length guid = GUID_LEN"
  shows "sign_data_buf name guid attr timestamp data =
           signed_message name guid attr timestamp data"
proof -
  let ?z = "\<lambda>n. replicate n (0 :: 8 word)"
  let ?t = "EFI_TIME_bytes timestamp"
  have buf: "?z (length name + GUID_LEN + 4 + sizeof_EFI_TIME + length data)
               = ?z (length name) @ ?z 16 @ ?z 4 @ ?z 16 @ ?z (length data)"
    by (simp add: GUID_LEN_def sizeof_EFI_TIME_def replicate_add [symmetric])
  have 1: "memcpy (?z (length name) @ ?z 16 @ ?z 4 @ ?z 16 @ ?z (length data)) 0 name
             (length name) = name @ ?z 16 @ ?z 4 @ ?z 16 @ ?z (length data)"
    using memcpy_segment [of "[]" 0 "?z (length name)" "length name" name] by simp
  have 2: "memcpy (name @ ?z 16 @ ?z 4 @ ?z 16 @ ?z (length data)) (length name) guid 16
             = name @ guid @ ?z 4 @ ?z 16 @ ?z (length data)"
    using memcpy_segment [of name "length name" "?z 16" 16 guid] assms
    by (simp add: GUID_LEN_def)
  have 3: "memcpy (name @ guid @ ?z 4 @ ?z 16 @ ?z (length data)) (length name + 16)
             (le32_bytes attr) 4 = name @ guid @ le32_bytes attr @ ?z 16 @ ?z (length data)"
    using memcpy_segment [of "name @ guid" "length name + 16" "?z 4" 4 "le32_bytes attr"] assms
    by (simp add: GUID_LEN_def)
  have 4: "memcpy (name @ guid @ le32_bytes attr @ ?z 16 @ ?z (length data))
             (length name + 16 + 4) ?t 16
             = name @ guid @ le32_bytes attr @ ?t @ ?z (length data)"
    using memcpy_segment [of "name @ guid @ le32_bytes attr" "length name + 16 + 4" "?z 16" 16 ?t]
      assms
    by (simp add: GUID_LEN_def)
  have 5: "memcpy (name @ guid @ le32_bytes attr @ ?t @ ?z (length data))
             (length name + 16 + 4 + 16) data (length data)
             = name @ guid @ le32_bytes attr @ ?t @ data"
    using memcpy_segment [of "name @ guid @ le32_bytes attr @ ?t" "length name + 16 + 4 + 16"
        "?z (length data)" "length data" data "[]"] assms
    by (simp add: GUID_LEN_def)
  show ?thesis
    unfolding sign_data_buf_def Let_def buf signed_message_def
    by (simp only: GUID_LEN_def sizeof_EFI_TIME_def add_0 1 2 3 4 5)
qed


lemma length_signature_list:
  "length (gEfiCertX509Guid g) = GUID_LEN \<Longrightarrow> length owner = GUID_LEN \<Longrightarrow>
   length (signature_list g owner der) = 44 + length der"
  by (simp add: signature_list_def GUID_LEN_def)

lemma sig_list_round:
  assumes x: "length (gEfiCertX509Guid g) = GUID_LEN" and v: "length vendor = GUID_LEN"
  shows "certs_to_sig_list_loop g w (c # cs) vendor data (length data) (length data) =
          (case i2d_X509 w c of
             None \<Rightarrow> None
           | Some der \<Rightarrow>
               certs_to_sig_list_loop g w cs vendor (data @ signature_list g vendor der)
                 (length (data @ signature_list g vendor der))
                 (length (data @ signature_list g vendor der)))"
proof (cases "i2d_X509 w c")
  case None
  then show ?thesis by simp
next
  case (Some der)
  let ?z = "\<lambda>n. replicate n (0 :: 8 word)"
  let ?n = "length data"
  let ?X = "gEfiCertX509Guid g"
  let ?SS = "of_nat (16 + length der) :: 32 word"
  let ?LS = "of_nat 28 + ?SS"
  have d0: "data @ ?z (?n + (28 + 16 + length der) - ?n)
              = data @ ?z 16 @ ?z 4 @ ?z 4 @ ?z 4 @ ?z 16 @ ?z (length der)"
    by (simp add: replicate_add [symmetric])
  have d1: "store_le32 (data @ ?z 16 @ ?z 4 @ ?z 4 @ ?z 4 @ ?z 16 @ ?z (length der)) (?n + 20) 0
              = data @ ?z 16 @ ?z 4 @ le32_bytes 0 @ ?z 4 @ ?z 16 @ ?z (length der)"
    using store_le32_segment [of "data @ ?z 16 @ ?z 4" "?n + 20" "?z 4"] by simp
  have d2: "store_le32 (data @ ?z 16 @ ?z 4 @ le32_bytes 0 @ ?z 4 @ ?z 16 @ ?z (length der))
              (?n + 24) ?SS
              = data @ ?z 16 @ ?z 4 @ le32_bytes 0 @ le32_bytes ?SS @ ?z 16 @ ?z (length der)"
    using store_le32_segment [of "data @ ?z 16 @ ?z 4 @ le32_bytes 0" "?n + 24" "?z 4"] by simp
  have d3: "store_le32 (data @ ?z 16 @ ?z 4 @ le32_bytes 0 @ le32_bytes ?SS @ ?z 16
                          @ ?z (length der)) (?n + 16) ?LS
              = data @ ?z 16 @ le32_bytes ?LS @ le32_bytes 0 @ le32_bytes ?SS @ ?z 16
                  @ ?z (length der)"
    using store_le32_segment [of "data @ ?z 16" "?n + 16" "?z 4"] by simp
  have d4: "memcpy (data @ ?z 16 @ le32_bytes ?LS @ le32_bytes 0 @ le32_bytes ?SS @ ?z 16
                      @ ?z (length der)) ?n ?X 16
              = data @ ?X @ le32_bytes ?LS @ le32_bytes 0 @ le32_bytes ?SS @ ?z 16
                  @ ?z (length der)"
    using memcpy_segment [of data ?n "?z 16" 16 ?X] x by (simp add: GUID_LEN_def)
  have d5: "memcpy (data @ ?X @ le32_bytes ?LS @ le32_bytes 0 @ le32_bytes ?SS @ ?z 16
                      @ ?z (length der)) (?n + 28) vendor 16
              = data @ ?X @ le32_bytes ?LS @ le32_bytes 0 @ le32_bytes ?SS @ vendor
                  @ ?z (length der)"
    using memcpy_segment [of "data @ ?X @ le32_bytes ?LS @ le32_bytes 0 @ le32_bytes ?SS"
        "?n + 28" "?z 16" 16 vendor] x v
    by (simp add: GUID_LEN_def)
  have d6: "memcpy (data @ ?X @ le32_bytes ?LS @ le32_bytes 0 @ le32_bytes ?SS @ vendor
                      @ ?z (length der)) (?n + 28 + 16) der (length der)
              = data @ ?X @ le32_bytes ?LS @ le32_bytes 0 @ le32_bytes ?SS @ vendor @ der"
    using memcpy_segment [of "data @ ?X @ le32_bytes ?LS @ le32_bytes 0 @ le32_bytes ?SS @ vendor"
        "?n + 28 + 16" "?z (length der)" "length der" der "[]"] x v
    by (simp add: GUID_LEN_def)
  have sl: "data @ ?X @ le32_bytes ?LS @ le32_bytes 0 @ le32_bytes ?SS @ vendor @ der
              = data @ signature_list g vendor der"
    by (simp add: signature_list_def sizeof_EFI_SIGNATURE_LIST_def offsetof_SignatureData_def)
  have len: "?n + (28 + 16 + length der) = length (data @ signature_list g vendor der)"
    "?n + 28 + 16 + length der = length (data @ signature_list g vendor der)"
    using x v by (simp_all add: length_signature_list)
  show ?thesis
    unfolding certs_to_sig_list_loop.simps Some option.case Let_def
      sizeof_EFI_SIGNATURE_LIST_def offsetof_SignatureData_def offsetof_SignatureHeaderSize_def
      offsetof_SignatureSize_def offsetof_SignatureListSize_def GUID_LEN_def
      d0 d1 d2 d3 d4 d5 d6 sl
    by (simp only: len)
qed

lemma sig_list_loop:
  assumes x: "length (gEfiCertX509Guid g) = GUID_LEN" and v: "length vendor = GUID_LEN"
  shows "certs_to_sig_list_loop g w cs vendor data (length data) (length data) =
          (case those (map (i2d_X509 w) cs) of
             None \<Rightarrow> None
           | Some ders \<Rightarrow>
               Some (data @ concat (map (signature_list g vendor) ders),
                     length (data @ concat (map (signature_list g vendor) ders))))"
proof (induction cs arbitrary: data)
  case Nil
  then show ?case by simp
next
  case (Cons c cs)
  show ?case
  proof (cases "i2d_X509 w c")
    case None
    then show ?thesis
      unfolding sig_list_round [OF x v] by simp
  next
    case (Some der)
    show ?thesis
      unfolding sig_list_round [OF x v] Some option.case Cons.IH
      by (simp add: Some split: option.splits)
  qed
qed

lemma certs_to_sig_list_lists:
  assumes "length (gEfiCertX509Guid g) = GUID_LEN" and "length vendor = GUID_LEN"
  shows "certs_to_sig_list g w cs vendor =
          (case those (map (i2d_X509 w) cs) of
             None \<Rightarrow> None
           | Some ders \<Rightarrow>
               Some (concat (map (signature_list g vendor) ders),
                     length (concat (map (signature_list g vendor) ders))))"
  using sig_list_loop [OF assms, of w cs "[]"]
  by (simp add: certs_to_sig_list_def split: option.splits)


lemma length_vendor_guid_of: "length (vendor_guid_of name) = GUID_LEN"
  by (simp add: vendor_guid_of_def citrix_guid_def microsoft_guid_def GUID_LEN_def)

lemma descriptor_cut:
  assumes "length (gEfiCertPkcs7Guid g) = GUID_LEN"
    and "create_descriptor g n timestamp = (d, l)"
  shows "take l (descriptor_bytes d) = auth_descriptor g timestamp n"
    and "length (auth_descriptor g timestamp n) = offsetof_AuthInfo_CertData"
  using assms
  by (auto simp add: create_descriptor_def descriptor_bytes_def auth_descriptor_def
      offsetof_AuthInfo_CertData_def GUID_LEN_def)

lemma variable_guid_cases:
  "variable_guid g name = Some guid \<Longrightarrow>
     name \<in> {''PK'', ''KEK'', ''db'', ''dbx''}
     \<and> guid = (if name = ''PK'' \<or> name = ''KEK'' then gEfiGlobalVariableGuid g
               else gEfiImageSecurityDatabaseGuid g)"
  by (auto simp add: variable_guid_def split: if_splits)

lemma main_success:
  assumes run: "main g w opts args = Inr (out, file)" and ok: "guids_ok g"
  obtains sign_key sign_cert guid cert t ders sig where
    "parse_opts w opts None None = Inr (sign_key, sign_cert)"
    "(sign_key = None) = (sign_cert = None)"
    "3 \<le> length args"
    "variable_guid g (args ! 0) = Some guid"
    "load_certs w (drop 2 args) = Some cert"
    "gmtime w = Some t"
    "those (map (i2d_X509 w) cert) = Some ders"
    "sign_data w sign_cert sign_key (name_ucs2 (args ! 0)) guid
       (ATTR_BRNV g OR EFI_VARIABLE_TIME_BASED_AUTHENTICATED_WRITE_ACCESS g) (timestamp_of t)
       (concat (map (signature_list g (vendor_guid_of (args ! 0))) ders)) = Some sig"
    "out = args ! 1"
    "file = auth_descriptor g (timestamp_of t) (length sig) @ sig
              @ concat (map (signature_list g (vendor_guid_of (args ! 0))) ders)"
proof -
  have x: "length (gEfiCertX509Guid g) = GUID_LEN" and p: "length (gEfiCertPkcs7Guid g) = GUID_LEN"
    using ok by (simp_all add: guids_ok_def)
  note lists = certs_to_sig_list_lists [OF x length_vendor_guid_of]
  obtain sign_key sign_cert where po: "parse_opts w opts None None = Inr (sign_key, sign_cert)"
    using run by (auto simp add: main_def split: sum.splits)
  have chk: "(sign_key = None) = (sign_cert = None)" "3 \<le> length args"
    using run po by (auto simp add: main_def split: if_splits)
  then have cond: "((sign_key \<noteq> None \<and> sign_cert = None) \<or> (sign_key = None \<and> sign_cert \<noteq> None)
             \<or> length args < 3) = False"
    by auto
  note run1 = run [unfolded main_def po sum.case prod.case cond if_False]
  obtain guid where vg: "variable_guid g (args ! 0) = Some guid"
    using run1 by (cases "variable_guid g (args ! 0)") simp_all
  obtain cert where lc: "load_certs w (drop 2 args) = Some cert"
    using run1 vg
    by (cases "load_certs w (drop 2 args)") (simp_all add: Let_def)
  obtain t where gm: "gmtime w = Some t"
    using run1 vg lc by (cases "gmtime w") (simp_all add: Let_def)
  obtain ders where ds: "those (map (i2d_X509 w) cert) = Some ders"
    using run1 vg lc gm
    by (cases "those (map (i2d_X509 w) cert)") (simp_all add: Let_def lists)
  let ?payload = "concat (map (signature_list g (vendor_guid_of (args ! 0))) ders)"
  let ?attr = "ATTR_BRNV g OR EFI_VARIABLE_TIME_BASED_AUTHENTICATED_WRITE_ACCESS g"
  obtain sig where sd: "sign_data w sign_cert sign_key (name_ucs2 (args ! 0)) guid ?attr
       (timestamp_of t) ?payload = Some sig"
    using run1 vg lc gm ds
    by (cases "sign_data w sign_cert sign_key (name_ucs2 (args ! 0)) guid ?attr
       (timestamp_of t) ?payload") (simp_all add: Let_def lists)
  obtain d l where cd: "create_descriptor g (length sig) (timestamp_of t) = (d, l)"
    by (cases "create_descriptor g (length sig) (timestamp_of t)")
  have res: "out = args ! 1"
    "file = take l (descriptor_bytes d) @ sig @ ?payload"
    using run1 vg lc gm ds sd cd
    by (simp_all add: Let_def lists split: if_splits)
  show thesis
    using that [OF po chk(1) chk(2) vg lc gm ds sd res(1)] res(2) descriptor_cut(1) [OF p cd]
    by simp
qed

subsection \<open>The output file\<close>

lemma example_run:
  "main example_consts example_world [Opt_k ''PK.key'', Opt_c ''PK.pem'']
     [''PK'', ''PK.auth'', ''a''] = Inr (''PK.auth'', example_file)"
  by code_simp

lemma example_guids_ok: "guids_ok example_consts"
  by code_simp

lemma example_opts:
  "parse_opts example_world [Opt_k ''PK.key'', Opt_c ''PK.pem''] None None
     = Inr (Some 0x5a, Some (map of_char ''PK.pem''))"
  by code_simp

text \<open>
  Claim C1. In every run of the generator that has a signing key and a certificate and
  writes its file, the byte string handed to the PKCS\#7 signer is the name in UCS-2, the
  GUID of the variable (16 bytes), the attributes (4 bytes, low byte first), the time
  stamp (16 bytes) and the payload, in this order and with nothing else; the payload is
  what follows the 40 bytes of the descriptor and the signature in the output file, and
  the signature in the file is what the signer returns for this byte string. (The GUIDs
  of the parameter are taken to be 16 bytes long.)
\<close>

theorem signed_message_of_run:
  assumes "main g w opts args = Inr (out, file)"
    and "parse_opts w opts None None = Inr (Some k, Some c)"
    and "guids_ok g"
  shows "\<exists>t guid sig.
           gmtime w = Some t
           \<and> variable_guid g (args ! 0) = Some guid \<and> length guid = 16
           \<and> length (le32_bytes (ATTR_BRNV g OR EFI_VARIABLE_TIME_BASED_AUTHENTICATED_WRITE_ACCESS g)) = 4
           \<and> length (EFI_TIME_bytes (timestamp_of t)) = 16
           \<and> take (length sig) (drop offsetof_AuthInfo_CertData file) = sig
           \<and> PKCS7_sign w c k
                (name_ucs2 (args ! 0) @ guid
                   @ le32_bytes (ATTR_BRNV g OR EFI_VARIABLE_TIME_BASED_AUTHENTICATED_WRITE_ACCESS g)
                   @ EFI_TIME_bytes (timestamp_of t)
                   @ drop (offsetof_AuthInfo_CertData + length sig) file) = Some sig"
proof -
  from assms(1,3) obtain sign_key sign_cert guid cert t ders sig where
    po: "parse_opts w opts None None = Inr (sign_key, sign_cert)"
    and vg: "variable_guid g (args ! 0) = Some guid"
    and lc: "load_certs w (drop 2 args) = Some cert"
    and gm: "gmtime w = Some t"
    and sd: "sign_data w sign_cert sign_key (name_ucs2 (args ! 0)) guid
       (ATTR_BRNV g OR EFI_VARIABLE_TIME_BASED_AUTHENTICATED_WRITE_ACCESS g) (timestamp_of t)
       (concat (map (signature_list g (vendor_guid_of (args ! 0))) ders)) = Some sig"
    and fl: "file = auth_descriptor g (timestamp_of t) (length sig) @ sig
              @ concat (map (signature_list g (vendor_guid_of (args ! 0))) ders)"
    by (rule main_success)
  have key: "sign_key = Some k" "sign_cert = Some c"
    using po assms(2) by simp_all
  have lg: "length guid = GUID_LEN"
    using variable_guid_cases [OF vg] assms(3) by (auto simp add: guids_ok_def)
  have ld: "length (auth_descriptor g (timestamp_of t) (length sig)) = offsetof_AuthInfo_CertData"
    using assms(3) by (simp add: auth_descriptor_def offsetof_AuthInfo_CertData_def
        guids_ok_def GUID_LEN_def)
  have "PKCS7_sign w c k
          (signed_message (name_ucs2 (args ! 0)) guid
             (ATTR_BRNV g OR EFI_VARIABLE_TIME_BASED_AUTHENTICATED_WRITE_ACCESS g) (timestamp_of t)
             (concat (map (signature_list g (vendor_guid_of (args ! 0))) ders))) = Some sig"
    using sd key by (simp add: sign_data_def sign_data_buf_concat [OF lg])
  moreover have "take (length sig) (drop offsetof_AuthInfo_CertData file) = sig"
    using ld by (simp add: fl)
  moreover have "drop (offsetof_AuthInfo_CertData + length sig) file
                   = concat (map (signature_list g (vendor_guid_of (args ! 0))) ders)"
    using ld by (simp add: fl)
  ultimately show ?thesis
    using gm vg lg
    by (intro exI [of _ t] exI [of _ guid] exI [of _ sig])
       (simp add: signed_message_def GUID_LEN_def)
qed

text \<open>
  The run \<open>create-auth -k PK.key -c PK.pem PK PK.auth a\<close> in the example world.
\<close>

theorem signed_message_of_run_witness:
  "main example_consts example_world [Opt_k ''PK.key'', Opt_c ''PK.pem'']
     [''PK'', ''PK.auth'', ''a''] = Inr (''PK.auth'', example_file)
   \<and> parse_opts example_world [Opt_k ''PK.key'', Opt_c ''PK.pem''] None None
       = Inr (Some 0x5a, Some (map of_char ''PK.pem''))
   \<and> guids_ok example_consts
   \<and> (\<exists>t guid sig.
           gmtime example_world = Some t
           \<and> variable_guid example_consts ([''PK'', ''PK.auth'', ''a''] ! 0) = Some guid
           \<and> length guid = 16
           \<and> length (le32_bytes (ATTR_BRNV example_consts
                 OR EFI_VARIABLE_TIME_BASED_AUTHENTICATED_WRITE_ACCESS example_consts)) = 4
           \<and> length (EFI_TIME_bytes (timestamp_of t)) = 16
           \<and> take (length sig) (drop offsetof_AuthInfo_CertData example_file) = sig
           \<and> PKCS7_sign example_world (map of_char ''PK.pem'') 0x5a
                (name_ucs2 ([''PK'', ''PK.auth'', ''a''] ! 0) @ guid
                   @ le32_bytes (ATTR_BRNV example_consts
                       OR EFI_VARIABLE_TIME_BASED_AUTHENTICATED_WRITE_ACCESS example_consts)
                   @ EFI_TIME_bytes (timestamp_of t)
                   @ drop (offsetof_AuthInfo_CertData + length sig) example_file) = Some sig)"
  by (intro conjI)
     (rule example_run example_opts example_guids_ok
        signed_message_of_run [OF example_run example_opts example_guids_ok])+

text \<open>
  Claim C7. The file of a successful run is, in this order: the descriptor up to
  CertData, that is the time stamp, dwLength (the length of the signature plus 24, the
  offset of CertData in WIN_CERTIFICATE_UEFI_GUID), wRevision 0x0200, wCertificateType
  WIN_CERT_TYPE_EFI_GUID and the PKCS\#7 GUID as CertType; then the signature that
  \<open>sign_data\<close> returns (the PKCS\#7 DER signature, or nothing in a run without a key);
  then one signature list with a single entry (\<open>signature_list\<close>) for each of the
  certificates read from the files named after the output file, in their order.
\<close>

theorem auth_file_layout:
  assumes "main g w opts args = Inr (out, file)" and "guids_ok g"
  shows "\<exists>sign_key sign_cert guid cert t ders sig.
           parse_opts w opts None None = Inr (sign_key, sign_cert)
           \<and> variable_guid g (args ! 0) = Some guid
           \<and> load_certs w (drop 2 args) = Some cert
           \<and> those (map (i2d_X509 w) cert) = Some ders
           \<and> gmtime w = Some t
           \<and> sign_data w sign_cert sign_key (name_ucs2 (args ! 0)) guid
                (ATTR_BRNV g OR EFI_VARIABLE_TIME_BASED_AUTHENTICATED_WRITE_ACCESS g)
                (timestamp_of t)
                (concat (map (signature_list g (vendor_guid_of (args ! 0))) ders)) = Some sig
           \<and> file =
               (EFI_TIME_bytes (timestamp_of t)
                  @ le32_bytes (of_nat (length sig + offsetof_CertData))
                  @ le16_bytes 0x0200
                  @ le16_bytes WIN_CERT_TYPE_EFI_GUID
                  @ gEfiCertPkcs7Guid g)
               @ sig
               @ concat (map (signature_list g (vendor_guid_of (args ! 0))) ders)"
proof -
  from assms obtain sign_key sign_cert guid cert t ders sig where
    "parse_opts w opts None None = Inr (sign_key, sign_cert)"
    "variable_guid g (args ! 0) = Some guid"
    "load_certs w (drop 2 args) = Some cert"
    "gmtime w = Some t"
    "those (map (i2d_X509 w) cert) = Some ders"
    "sign_data w sign_cert sign_key (name_ucs2 (args ! 0)) guid
       (ATTR_BRNV g OR EFI_VARIABLE_TIME_BASED_AUTHENTICATED_WRITE_ACCESS g) (timestamp_of t)
       (concat (map (signature_list g (vendor_guid_of (args ! 0))) ders)) = Some sig"
    "file = auth_descriptor g (timestamp_of t) (length sig) @ sig
              @ concat (map (signature_list g (vendor_guid_of (args ! 0))) ders)"
    by (rule main_success)
  then show ?thesis
    unfolding auth_descriptor_def by blast
qed


text \<open>The same run as for C1.\<close>

theorem auth_file_layout_witness:
  "main example_consts example_world [Opt_k ''PK.key'', Opt_c ''PK.pem'']
     [''PK'', ''PK.auth'', ''a''] = Inr (''PK.auth'', example_file)
   \<and> guids_ok example_consts
   \<and> (\<exists>sign_key sign_cert guid cert t ders sig.
           parse_opts example_world [Opt_k ''PK.key'', Opt_c ''PK.pem''] None None
             = Inr (sign_key, sign_cert)
           \<and> variable_guid example_consts ([''PK'', ''PK.auth'', ''a''] ! 0) = Some guid
           \<and> load_certs example_world (drop 2 [''PK'', ''PK.auth'', ''a'']) = Some cert
           \<and> those (map (i2d_X509 example_world) cert) = Some ders
           \<and> gmtime example_world = Some t
           \<and> sign_data example_world sign_cert sign_key
                (name_ucs2 ([''PK'', ''PK.auth'', ''a''] ! 0)) guid
                (ATTR_BRNV example_consts
                   OR EFI_VARIABLE_TIME_BASED_AUTHENTICATED_WRITE_ACCESS example_consts)
                (timestamp_of t)
                (concat (map (signature_list example_consts
                                (vendor_guid_of ([''PK'', ''PK.auth'', ''a''] ! 0))) ders))
               = Some sig
           \<and> example_file =
               (EFI_TIME_bytes (timestamp_of t)
                  @ le32_bytes (of_nat (length sig + offsetof_CertData))
                  @ le16_bytes 0x0200
                  @ le16_bytes WIN_CERT_TYPE_EFI_GUID
                  @ gEfiCertPkcs7Guid example_consts)
               @ sig
               @ concat (map (signature_list example_consts
                               (vendor_guid_of ([''PK'', ''PK.auth'', ''a''] ! 0))) ders))"
  by (intro conjI)
     (rule example_run example_guids_ok auth_file_layout [OF example_run example_guids_ok])+

lemma main_needs_guid:
  assumes "main g w opts args = Inr r"
  shows "variable_guid g (args ! 0) \<noteq> None"
proof -
  obtain sign_key sign_cert where po: "parse_opts w opts None None = Inr (sign_key, sign_cert)"
    using assms by (auto simp add: main_def split: sum.splits)
  have "(sign_key = None) = (sign_cert = None)" "3 \<le> length args"
    using assms po by (auto simp add: main_def split: if_splits)
  then have cond: "((sign_key \<noteq> None \<and> sign_cert = None) \<or> (sign_key = None \<and> sign_cert \<noteq> None)
             \<or> length args < 3) = False"
    by auto
  note run1 = assms [unfolded main_def po sum.case prod.case cond if_False]
  show ?thesis
    using run1 by (cases "variable_guid g (args ! 0)") simp_all
qed

lemma signature_list_owner:
  assumes "length (gEfiCertX509Guid g) = GUID_LEN" and "length owner = GUID_LEN"
  shows "take GUID_LEN (drop sizeof_EFI_SIGNATURE_LIST (signature_list g owner der)) = owner"
  using assms by (simp add: signature_list_def GUID_LEN_def sizeof_EFI_SIGNATURE_LIST_def)

text \<open>
  Claim C8. A run that writes its file has one of the names PK, KEK, db and dbx; the GUID
  that it passes to \<open>sign_data\<close> is the Global one for PK and KEK and the Image Security
  Database one for db and dbx; and the owner in every signature list of the payload
  (\<open>signature_list_owner\<close>: the 16 bytes after the header of the list) is
  \<open>citrix_guid\<close> for PK and \<open>microsoft_guid\<close> for KEK, db and dbx. A run with any
  other name ends in \<open>exit\<close> and writes nothing.
\<close>

theorem variable_and_owner_guids:
  "(main g w opts args = Inr (out, file) \<and> guids_ok g \<longrightarrow>
      args ! 0 \<in> {''PK'', ''KEK'', ''db'', ''dbx''}
      \<and> (\<exists>sign_key sign_cert cert t ders sig.
            parse_opts w opts None None = Inr (sign_key, sign_cert)
            \<and> load_certs w (drop 2 args) = Some cert
            \<and> those (map (i2d_X509 w) cert) = Some ders
            \<and> gmtime w = Some t
            \<and> sign_data w sign_cert sign_key (name_ucs2 (args ! 0))
                 (if args ! 0 = ''PK'' \<or> args ! 0 = ''KEK'' then gEfiGlobalVariableGuid g
                  else gEfiImageSecurityDatabaseGuid g)
                 (ATTR_BRNV g OR EFI_VARIABLE_TIME_BASED_AUTHENTICATED_WRITE_ACCESS g)
                 (timestamp_of t)
                 (concat (map (signature_list g
                                 (if args ! 0 = ''PK'' then citrix_guid else microsoft_guid))
                            ders)) = Some sig
            \<and> drop (offsetof_AuthInfo_CertData + length sig) file =
                 concat (map (signature_list g
                                (if args ! 0 = ''PK'' then citrix_guid else microsoft_guid))
                           ders)))
   \<and> (args ! 0 \<notin> {''PK'', ''KEK'', ''db'', ''dbx''} \<longrightarrow> (\<exists>e. main g w opts args = Inl e))"
proof (intro conjI impI)
  assume no: "args ! 0 \<notin> {''PK'', ''KEK'', ''db'', ''dbx''}"
  then have "variable_guid g (args ! 0) = None"
    by (simp add: variable_guid_def)
  then show "\<exists>e. main g w opts args = Inl e"
    using main_needs_guid [of g w opts args] by (cases "main g w opts args") auto
next
  assume a: "main g w opts args = Inr (out, file) \<and> guids_ok g"
  then obtain sign_key sign_cert guid cert t ders sig where
    po: "parse_opts w opts None None = Inr (sign_key, sign_cert)"
    and vg: "variable_guid g (args ! 0) = Some guid"
    and lc: "load_certs w (drop 2 args) = Some cert"
    and gm: "gmtime w = Some t"
    and ds: "those (map (i2d_X509 w) cert) = Some ders"
    and sd: "sign_data w sign_cert sign_key (name_ucs2 (args ! 0)) guid
       (ATTR_BRNV g OR EFI_VARIABLE_TIME_BASED_AUTHENTICATED_WRITE_ACCESS g) (timestamp_of t)
       (concat (map (signature_list g (vendor_guid_of (args ! 0))) ders)) = Some sig"
    and fl: "file = auth_descriptor g (timestamp_of t) (length sig) @ sig
              @ concat (map (signature_list g (vendor_guid_of (args ! 0))) ders)"
    by (elim conjE main_success)
  note vc = variable_guid_cases [OF vg]
  show "args ! 0 \<in> {''PK'', ''KEK'', ''db'', ''dbx''}"
    using vc by simp
  have ld: "length (auth_descriptor g (timestamp_of t) (length sig)) = offsetof_AuthInfo_CertData"
    using a by (simp add: auth_descriptor_def offsetof_AuthInfo_CertData_def
        guids_ok_def GUID_LEN_def)
  have dr: "drop (offsetof_AuthInfo_CertData + length sig) file
              = concat (map (signature_list g (vendor_guid_of (args ! 0))) ders)"
    using ld by (simp add: fl)
  show "\<exists>sign_key sign_cert cert t ders sig.
            parse_opts w opts None None = Inr (sign_key, sign_cert)
            \<and> load_certs w (drop 2 args) = Some cert
            \<and> those (map (i2d_X509 w) cert) = Some ders
            \<and> gmtime w = Some t
            \<and> sign_data w sign_cert sign_key (name_ucs2 (args ! 0))
                 (if args ! 0 = ''PK'' \<or> args ! 0 = ''KEK'' then gEfiGlobalVariableGuid g
                  else gEfiImageSecurityDatabaseGuid g)
                 (ATTR_BRNV g OR EFI_VARIABLE_TIME_BASED_AUTHENTICATED_WRITE_ACCESS g)
                 (timestamp_of t)
                 (concat (map (signature_list g
                                 (if args ! 0 = ''PK'' then citrix_guid else microsoft_guid))
                            ders)) = Some sig
            \<and> drop (offsetof_AuthInfo_CertData + length sig) file =
                 concat (map (signature_list g
                                (if args ! 0 = ''PK'' then citrix_guid else microsoft_guid))
                           ders)"
    using po lc ds gm sd dr vc unfolding vendor_guid_of_def by blast
qed

lemma example_rejected:
  "main example_consts example_world [] [''dbt'', ''dbt.auth'', ''a''] = Inl 1"
  by code_simp

text \<open>
  The run for PK as before, where the owner of the list in the file is the Citrix GUID,
  and a run for dbt, which is refused.
\<close>

theorem variable_and_owner_guids_witness:
  "main example_consts example_world [Opt_k ''PK.key'', Opt_c ''PK.pem'']
     [''PK'', ''PK.auth'', ''a''] = Inr (''PK.auth'', example_file)
   \<and> guids_ok example_consts
   \<and> [''PK'', ''PK.auth'', ''a''] ! 0 \<in> {''PK'', ''KEK'', ''db'', ''dbx''}
   \<and> [''dbt'', ''dbt.auth'', ''a''] ! 0 \<notin> {''PK'', ''KEK'', ''db'', ''dbx''}
   \<and> (\<exists>e. main example_consts example_world [] [''dbt'', ''dbt.auth'', ''a''] = Inl e)
   \<and> take GUID_LEN (drop (offsetof_AuthInfo_CertData + length example_sig
                            + sizeof_EFI_SIGNATURE_LIST) example_file) = citrix_guid"
proof -
  have no: "[''dbt'', ''dbt.auth'', ''a''] ! 0 \<notin> {''PK'', ''KEK'', ''db'', ''dbx''}"
    by simp
  have own: "take GUID_LEN (drop (offsetof_AuthInfo_CertData + length example_sig
                            + sizeof_EFI_SIGNATURE_LIST) example_file) = citrix_guid"
    by code_simp
  from variable_and_owner_guids [of example_consts example_world
      "[Opt_k ''PK.key'', Opt_c ''PK.pem'']" "[''PK'', ''PK.auth'', ''a'']" "''PK.auth''"
      example_file]
    variable_and_owner_guids [of example_consts example_world "[]"
      "[''dbt'', ''dbt.auth'', ''a'']"]
    example_run example_guids_ok no own
  show ?thesis
    by blast
qed

end
